theory Spec2Isabelle
  imports Complex_Main "HOL-Library.Char_ord" "HOL-Library.List_Lexorder"
begin

section \<open>The benchmark driver of \<^verbatim>\<open>benchmark.py\<close>\<close>

text \<open>
  A shallow embedding of \<^verbatim>\<open>src/benchmark.py\<close>: the resource monitor, the threaded
  dispatcher with its statistics, and the comparison run. Python floats are modelled as
  \<^typ>\<open>real\<close> (exact arithmetic, no rounding), Python ints as \<^typ>\<open>int\<close>, a raised
  exception as \<open>Inl\<close> of a sum, and a call that never returns as \<open>None\<close>.
\<close>

subsection \<open>Exceptions and Python built-ins\<close>

datatype exn =
    NoSuchProcess | AccessDenied
  | TypeError | AttributeError | ValueError | IndexError
  | StatisticsError | ZeroDivisionError | OSError
  | HTTPStatusError | ConnectError | TimeoutException | OtherError

text \<open>Sequencing of two computations that may raise: the first exception wins.\<close>

definition bind_exn :: "exn + 'a \<Rightarrow> ('a \<Rightarrow> exn + 'b) \<Rightarrow> exn + 'b" where
  "bind_exn m f = (case m of Inl e \<Rightarrow> Inl e | Inr x \<Rightarrow> f x)"

text \<open>\<^verbatim>\<open>max(xs)\<close> and \<^verbatim>\<open>min(xs)\<close>: a left-to-right scan; \<^verbatim>\<open>ValueError\<close> on an empty list.\<close>

definition py_max :: "real list \<Rightarrow> exn + real" where
  "py_max xs = (case xs of [] \<Rightarrow> Inl ValueError | x # rest \<Rightarrow> Inr (fold max rest x))"

definition py_min :: "real list \<Rightarrow> exn + real" where
  "py_min xs = (case xs of [] \<Rightarrow> Inl ValueError | x # rest \<Rightarrow> Inr (fold min rest x))"

text \<open>
  List subscription \<^verbatim>\<open>xs[i]\<close>: positions \<open>0 .. len-1\<close> from the front, \<open>-1 .. -len\<close>
  from the back, anything else is an \<^verbatim>\<open>IndexError\<close>.
\<close>

definition py_index :: "'a list \<Rightarrow> int \<Rightarrow> exn + 'a" where
  "py_index xs i =
     (if 0 \<le> i \<and> i < int (length xs) then Inr (xs ! nat i)
      else if i < 0 \<and> - int (length xs) \<le> i then Inr (xs ! nat (int (length xs) + i))
      else Inl IndexError)"

text \<open>\<^verbatim>\<open>needle in hay\<close> for two strings: \<open>needle\<close> occurs as a contiguous substring.\<close>

fun starts_with :: "string \<Rightarrow> string \<Rightarrow> bool" where
  "starts_with [] hay = True"
| "starts_with (c # cs) [] = False"
| "starts_with (c # cs) (h # hs) = (c = h \<and> starts_with cs hs)"

fun str_contains :: "string \<Rightarrow> string \<Rightarrow> bool" where
  "str_contains needle [] = (needle = [])"
| "str_contains needle (h # hs) = (starts_with needle (h # hs) \<or> str_contains needle hs)"

subsection \<open>The \<^verbatim>\<open>statistics\<close> module\<close>

text \<open>
  \<^verbatim>\<open>statistics.mean\<close>, \<^verbatim>\<open>statistics.median\<close> and \<^verbatim>\<open>statistics.quantiles\<close> of the Python
  standard library, as the program calls them. \<^verbatim>\<open>quantiles\<close> is called with its default
  method, \<^verbatim>\<open>'exclusive'\<close>:
  \<^verbatim>\<open>
    data = sorted(data); ld = len(data)
    if ld < 2: raise StatisticsError
    m = ld + 1
    for i in range(1, n):
        j = i * m // n
        j = 1 if j < 1 else ld-1 if j > ld-1 else j
        delta = i*m - j*n
        interpolated = (data[j - 1] * (n - delta) + data[j] * delta) / n
        result.append(interpolated)
  \<close>
\<close>

definition statistics_mean :: "real list \<Rightarrow> exn + real" where
  "statistics_mean xs =
     (if xs = [] then Inl StatisticsError else Inr (sum_list xs / real (length xs)))"

definition statistics_median :: "real list \<Rightarrow> exn + real" where
  "statistics_median xs =
     (let data = sort xs; n = length data
      in if n = 0 then Inl StatisticsError
         else if n mod 2 = 1 then Inr (data ! (n div 2))
         else Inr ((data ! (n div 2 - 1) + data ! (n div 2)) / 2))"

definition quantile_cut :: "real list \<Rightarrow> int \<Rightarrow> int \<Rightarrow> real" where
  "quantile_cut data n i =
     (let ld = int (length data);
          m = ld + 1;
          j0 = i * m div n;
          j = (if j0 < 1 then 1 else if j0 > ld - 1 then ld - 1 else j0);
          delta = i * m - j * n
      in (data ! nat (j - 1) * of_int (n - delta) + data ! nat j * of_int delta) / of_int n)"

definition statistics_quantiles :: "real list \<Rightarrow> int \<Rightarrow> exn + real list" where
  "statistics_quantiles xs n =
     (if n < 1 then Inl StatisticsError
      else let data = sort xs
           in if length data < 2 then Inl StatisticsError
              else Inr (map (quantile_cut data n) [1..n - 1]))"

subsection \<open>Latency statistics of \<^verbatim>\<open>benchmark_service_threaded\<close>\<close>

text \<open>
  The six latency fields of the returned dict, each with the guard the source writes:
  \<^verbatim>\<open>
    "avg_latency_ms": statistics.mean(latencies) if latencies else 0,
    "p50_latency_ms": statistics.median(latencies) if latencies else 0,
    "p95_latency_ms": statistics.quantiles(latencies, n=20)[18] if len(latencies) > 20
                      else max(latencies) if latencies else 0,
    "p99_latency_ms": statistics.quantiles(latencies, n=100)[98] if len(latencies) > 100
                      else max(latencies) if latencies else 0,
    "max_latency_ms": max(latencies) if latencies else 0,
    "min_latency_ms": min(latencies) if latencies else 0,
  \<close>
\<close>

definition avg_latency_ms_of :: "real list \<Rightarrow> exn + real" where
  "avg_latency_ms_of latencies =
     (if latencies \<noteq> [] then statistics_mean latencies else Inr 0)"

definition p50_latency_ms_of :: "real list \<Rightarrow> exn + real" where
  "p50_latency_ms_of latencies =
     (if latencies \<noteq> [] then statistics_median latencies else Inr 0)"

definition p95_latency_ms_of :: "real list \<Rightarrow> exn + real" where
  "p95_latency_ms_of latencies =
     (if length latencies > 20
      then bind_exn (statistics_quantiles latencies 20) (\<lambda>q. py_index q 18)
      else if latencies \<noteq> [] then py_max latencies else Inr 0)"

definition p99_latency_ms_of :: "real list \<Rightarrow> exn + real" where
  "p99_latency_ms_of latencies =
     (if length latencies > 100
      then bind_exn (statistics_quantiles latencies 100) (\<lambda>q. py_index q 98)
      else if latencies \<noteq> [] then py_max latencies else Inr 0)"

definition max_latency_ms_of :: "real list \<Rightarrow> exn + real" where
  "max_latency_ms_of latencies = (if latencies \<noteq> [] then py_max latencies else Inr 0)"

definition min_latency_ms_of :: "real list \<Rightarrow> exn + real" where
  "min_latency_ms_of latencies = (if latencies \<noteq> [] then py_min latencies else Inr 0)"

subsection \<open>\<^verbatim>\<open>ResourceMonitor\<close>\<close>

record ResourceMetrics =
  cpu_percent :: real
  memory_mb :: real
  threads :: int

text \<open>
  What \<^verbatim>\<open>psutil.process_iter([...])\<close> hands to the loop body for one process:
  \<^verbatim>\<open>proc.info\<close>, whose entries are \<^verbatim>\<open>None\<close> where psutil was denied access
  (\<open>info_memory_rss\<close> is \<^verbatim>\<open>proc.info['memory_info'].rss\<close> in bytes, \<open>None\<close> when
  \<^verbatim>\<open>memory_info\<close> itself is \<^verbatim>\<open>None\<close>), or an exception raised while the body inspects
  the process.
\<close>

record proc_info =
  info_name :: "string option"
  info_cpu_percent :: "real option"
  info_memory_rss :: "nat option"
  info_num_threads :: "int option"

datatype proc_entry = Info proc_info | Inspect_raises exn

text \<open>
  One enumeration of the process table: the processes the generator yields and, when the
  enumeration itself fails, the exception it raises after them.
\<close>

record proc_table =
  yielded :: "proc_entry list"
  iter_error :: "exn option"

record totals =
  total_cpu :: real
  total_memory :: real
  total_threads :: int
  found_processes :: int

text \<open>
  The body of the inner \<^verbatim>\<open>try\<close> (lines 66-75): \<open>Inr None\<close> when the name does not match,
  \<open>Inr (Some (cpu, memory, threads))\<close> when it does, \<open>Inl e\<close> when the body raises.
  \<^verbatim>\<open>any(name in proc_name for name in self.process_names)\<close> raises \<^verbatim>\<open>TypeError\<close> on a
  \<^verbatim>\<open>None\<close> name as soon as there is a first configured name to test.
\<close>

definition inspect :: "string list \<Rightarrow> proc_entry \<Rightarrow> exn + (real \<times> real \<times> int) option" where
  "inspect process_names p =
     (case p of
        Inspect_raises e \<Rightarrow> Inl e
      | Info i \<Rightarrow>
          (case info_name i of
             None \<Rightarrow> if process_names = [] then Inr None else Inl TypeError
           | Some proc_name \<Rightarrow>
               if list_ex (\<lambda>name. str_contains name proc_name) process_names
               then (let cpu = (case info_cpu_percent i of None \<Rightarrow> 0 | Some c \<Rightarrow> c)
                     in case info_memory_rss i of
                          None \<Rightarrow> Inl AttributeError
                        | Some rss \<Rightarrow>
                            Inr (Some (cpu, real rss / (1024 * 1024),
                                       (case info_num_threads i of None \<Rightarrow> 0 | Some t \<Rightarrow> t))))
               else Inr None))"

text \<open>
  The \<^verbatim>\<open>for proc in psutil.process_iter(...)\<close> loop: \<^verbatim>\<open>NoSuchProcess\<close> and
  \<^verbatim>\<open>AccessDenied\<close> skip the process, any other exception leaves the loop.
\<close>

fun scan_processes :: "string list \<Rightarrow> proc_entry list \<Rightarrow> totals \<Rightarrow> exn + totals" where
  "scan_processes process_names [] t = Inr t"
| "scan_processes process_names (p # ps) t =
     (case inspect process_names p of
        Inl e \<Rightarrow>
          if e = NoSuchProcess \<or> e = AccessDenied
          then scan_processes process_names ps t
          else Inl e
      | Inr None \<Rightarrow> scan_processes process_names ps t
      | Inr (Some (cpu, memory, thr)) \<Rightarrow>
          scan_processes process_names ps
            (t\<lparr>total_cpu := total_cpu t + cpu,
               total_memory := total_memory t + memory,
               total_threads := total_threads t + thr,
               found_processes := found_processes t + 1\<rparr>))"

definition zero_totals :: totals where
  "zero_totals = \<lparr>total_cpu = 0, total_memory = 0, total_threads = 0, found_processes = 0\<rparr>"

text \<open>
  One pass through the body of \<^verbatim>\<open>while self.monitoring\<close> (lines 58-89): the new
  \<^verbatim>\<open>self.metrics\<close> and the exception caught by \<^verbatim>\<open>except Exception\<close>, if any, which
  ends the loop. \<^verbatim>\<open>time.sleep(interval)\<close> raises \<^verbatim>\<open>ValueError\<close> on a negative interval.
\<close>

definition monitor_tick ::
  "string list \<Rightarrow> real \<Rightarrow> ResourceMetrics list \<Rightarrow> proc_table \<Rightarrow> ResourceMetrics list \<times> exn option"
where
  "monitor_tick process_names interval metrics tbl =
     (case scan_processes process_names (yielded tbl) zero_totals of
        Inl e \<Rightarrow> (metrics, Some e)
      | Inr t \<Rightarrow>
          (case iter_error tbl of
             Some e \<Rightarrow> (metrics, Some e)
           | None \<Rightarrow>
               (let metrics' =
                      (if found_processes t > 0
                       then metrics @ [\<lparr>cpu_percent = total_cpu t,
                                        memory_mb = total_memory t,
                                        threads = total_threads t\<rparr>]
                       else metrics)
                in if interval < 0 then (metrics', Some ValueError) else (metrics', None))))"

text \<open>
  The loop runs in its own thread. A schedule lists, for each time the loop head is
  reached, the value of \<^verbatim>\<open>self.monitoring\<close> read there and the process table the tick
  then sees; the result is \<^verbatim>\<open>self.metrics\<close> when the loop has ended or the schedule is
  used up.
\<close>

record tick_env =
  monitoring :: bool
  table :: proc_table

fun monitor_loop ::
  "string list \<Rightarrow> real \<Rightarrow> ResourceMetrics list \<Rightarrow> tick_env list \<Rightarrow> ResourceMetrics list"
where
  "monitor_loop process_names interval metrics [] = metrics"
| "monitor_loop process_names interval metrics (t # ts) =
     (if monitoring t
      then (case monitor_tick process_names interval metrics (table t) of
              (metrics', Some e) \<Rightarrow> metrics'
            | (metrics', None) \<Rightarrow> monitor_loop process_names interval metrics' ts)
      else metrics)"

text \<open>A process counts as matching when its name contains one of the configured names.\<close>

definition name_matches :: "string list \<Rightarrow> proc_entry \<Rightarrow> bool" where
  "name_matches process_names p =
     (case p of
        Info i \<Rightarrow>
          (case info_name i of
             Some proc_name \<Rightarrow> list_ex (\<lambda>name. str_contains name proc_name) process_names
           | None \<Rightarrow> False)
      | Inspect_raises e \<Rightarrow> False)"

subsection \<open>JSON values\<close>

text \<open>
  A JSON value as Python holds it after \<^verbatim>\<open>response.json()\<close> and before \<^verbatim>\<open>json.dump\<close>.
  JSON has one type of number: \<open>JNum\<close> is a number by its value, and whether Python holds
  it as an \<^verbatim>\<open>int\<close> or a \<^verbatim>\<open>float\<close> (\<^verbatim>\<open>0\<close> or \<^verbatim>\<open>0.0\<close> in the text of a file) is not
  recorded. \<open>JObj\<close> lists the pairs of an object in their order.
\<close>

datatype json =
    JNull | JBool bool | JNum real | JStr string
  | JArr "json list" | JObj "(string \<times> json) list"

text \<open>
  The dict built from a list of pairs, as \<^verbatim>\<open>d[k] = v\<close> builds it: a repeated key keeps
  its first position and takes its last value.
\<close>

fun dict_set :: "string \<Rightarrow> 'v \<Rightarrow> (string \<times> 'v) list \<Rightarrow> (string \<times> 'v) list" where
  "dict_set k v [] = [(k, v)]"
| "dict_set k v ((k', v') # rest) =
     (if k' = k then (k', v) # rest else (k', v') # dict_set k v rest)"

definition dict_items :: "(string \<times> 'v) list \<Rightarrow> (string \<times> 'v) list" where
  "dict_items pairs = fold (\<lambda>(k, v) d. dict_set k v d) pairs []"

text \<open>
  The values Python computes with: numbers, and the booleans, which are the integers 1
  and 0. Everything else makes \<^verbatim>\<open>statistics.mean\<close> raise \<^verbatim>\<open>TypeError\<close>.
\<close>

fun number_value :: "json \<Rightarrow> real option" where
  "number_value (JNum x) = Some x"
| "number_value (JBool b) = Some (if b then 1 else 0)"
| "number_value v = None"

definition value_of :: "json \<Rightarrow> real" where
  "value_of v = (case number_value v of Some x \<Rightarrow> x | None \<Rightarrow> 0)"

definition numbers_of :: "json list \<Rightarrow> exn + real list" where
  "numbers_of vs =
     (if list_all (\<lambda>v. number_value v \<noteq> None) vs then Inr (map value_of vs)
      else Inl TypeError)"

subsection \<open>\<^verbatim>\<open>benchmark_service_threaded\<close>\<close>

text \<open>
  What happens to one attempt inside \<^verbatim>\<open>make_request\<close>: the POST fails (transport
  error or timeout), \<^verbatim>\<open>raise_for_status\<close> raises, the body is not JSON, or the response
  arrives with its latency in milliseconds and its body, which may be any JSON value.
  \<open>Handler_raised\<close> is an exception that escapes the \<^verbatim>\<open>except Exception\<close> handler
  itself.
\<close>

datatype http_outcome =
    Request_failed
  | Status_error
  | Body_error
  | Ok_response real json
  | Handler_raised exn

definition make_request :: "http_outcome \<Rightarrow> exn + (real \<times> json) option" where
  "make_request outcome =
     (case outcome of
        Ok_response latency data \<Rightarrow> Inr (Some (latency, data))
      | Request_failed \<Rightarrow> Inr None
      | Status_error \<Rightarrow> Inr None
      | Body_error \<Rightarrow> Inr None
      | Handler_raised e \<Rightarrow> Inl e)"

text \<open>
  The loop over the list returned by \<^verbatim>\<open>asyncio.gather(*tasks, return_exceptions=True)\<close>
  (lines 141-148); an exception object in that list is \<open>Inl\<close>. The accumulator is
  \<open>(latencies, errors, responses)\<close>.
\<close>

fun process_results ::
  "(exn + (real \<times> json) option) list \<Rightarrow> real list \<times> int \<times> json list
   \<Rightarrow> real list \<times> int \<times> json list"
where
  "process_results [] acc = acc"
| "process_results (result # rest) (latencies, errors, responses) =
     (case result of
        Inl e \<Rightarrow> process_results rest (latencies, errors + 1, responses)
      | Inr None \<Rightarrow> process_results rest (latencies, errors + 1, responses)
      | Inr (Some (latency, data)) \<Rightarrow>
          process_results rest (latencies @ [latency], errors, responses @ [data]))"

text \<open>
  \<^verbatim>\<open>response.get("task_times", {}).items()\<close> (line 155), outside any \<^verbatim>\<open>try\<close>: a body
  that is not an object has no \<^verbatim>\<open>get\<close>, and a \<^verbatim>\<open>task_times\<close> that is not an object has no
  \<^verbatim>\<open>items\<close>; both raise \<^verbatim>\<open>AttributeError\<close>.
\<close>

definition task_times_of :: "json \<Rightarrow> exn + (string \<times> json) list" where
  "task_times_of response =
     (case response of
        JObj pairs \<Rightarrow>
          (case map_of (dict_items pairs) ''task_times'' of
             None \<Rightarrow> Inr []
           | Some tt \<Rightarrow>
               (case tt of
                  JObj entries \<Rightarrow> Inr (dict_items entries)
                | JNull \<Rightarrow> Inl AttributeError
                | JBool b \<Rightarrow> Inl AttributeError
                | JNum x \<Rightarrow> Inl AttributeError
                | JStr t \<Rightarrow> Inl AttributeError
                | JArr vs \<Rightarrow> Inl AttributeError))
      | JNull \<Rightarrow> Inl AttributeError
      | JBool b \<Rightarrow> Inl AttributeError
      | JNum x \<Rightarrow> Inl AttributeError
      | JStr t \<Rightarrow> Inl AttributeError
      | JArr vs \<Rightarrow> Inl AttributeError)"

text \<open>\<^verbatim>\<open>task_times[task].append(duration)\<close> on a dict that keeps insertion order.\<close>

fun add_time :: "string \<Rightarrow> json \<Rightarrow> (string \<times> json list) list \<Rightarrow> (string \<times> json list) list" where
  "add_time task duration [] = [(task, [duration])]"
| "add_time task duration ((k, tms) # rest) =
     (if k = task then (k, tms @ [duration]) # rest
      else (k, tms) # add_time task duration rest)"

text \<open>Lines 153-158: the two nested loops; the first exception leaves them.\<close>

fun collect_task_times ::
  "json list \<Rightarrow> (string \<times> json list) list \<Rightarrow> exn + (string \<times> json list) list"
where
  "collect_task_times [] task_times = Inr task_times"
| "collect_task_times (response # rest) task_times =
     (case task_times_of response of
        Inl e \<Rightarrow> Inl e
      | Inr entries \<Rightarrow>
          collect_task_times rest
            (fold (\<lambda>(task, duration) a. add_time task duration a) entries task_times))"

text \<open>
  Lines 160-166, for one task. \<^verbatim>\<open>statistics.mean\<close> comes first and raises \<^verbatim>\<open>TypeError\<close>
  when a duration is not a number. \<^verbatim>\<open>statistics.median\<close> of an odd number of values and
  \<^verbatim>\<open>max\<close> return an element of the list as it is, so a boolean stays a boolean;
  \<^verbatim>\<open>sorted\<close> is stable and \<^verbatim>\<open>max\<close> keeps the first of several greatest elements.
\<close>

definition median_of_durations :: "json list \<Rightarrow> exn + json" where
  "median_of_durations tms =
     (let data = sort_key value_of tms; n = length data
      in if n = 0 then Inl StatisticsError
         else if n mod 2 = 1 then Inr (data ! (n div 2))
         else Inr (JNum ((value_of (data ! (n div 2 - 1)) + value_of (data ! (n div 2))) / 2)))"

definition max_of_durations :: "json list \<Rightarrow> exn + json" where
  "max_of_durations tms =
     (case tms of
        [] \<Rightarrow> Inl ValueError
      | x # rest \<Rightarrow> Inr (fold (\<lambda>y m. if value_of m < value_of y then y else m) rest x))"

record task_stat =
  avg_ms :: real
  p50_ms :: json
  p95_ms :: json

definition task_stat_of :: "json list \<Rightarrow> exn + task_stat" where
  "task_stat_of tms =
     bind_exn (numbers_of tms) (\<lambda>xs.
     bind_exn (statistics_mean xs) (\<lambda>a.
     bind_exn (median_of_durations tms) (\<lambda>m.
     bind_exn (if length tms > 20
               then bind_exn (statistics_quantiles xs 20) (\<lambda>q.
                    bind_exn (py_index q 18) (\<lambda>p. Inr (JNum p)))
               else if tms \<noteq> [] then max_of_durations tms else Inr (JNum 0)) (\<lambda>p.
     Inr \<lparr>avg_ms = a, p50_ms = m, p95_ms = p\<rparr>))))"

fun task_stats_of :: "(string \<times> json list) list \<Rightarrow> exn + (string \<times> task_stat) list" where
  "task_stats_of [] = Inr []"
| "task_stats_of ((task, tms) # rest) =
     bind_exn (task_stat_of tms) (\<lambda>s.
     bind_exn (task_stats_of rest) (\<lambda>ss. Inr ((task, s) # ss)))"

text \<open>
  The bodies on which lines 153-166 raise nothing: an object whose \<^verbatim>\<open>task_times\<close>, when
  present, is an object of numbers.
\<close>

definition body_is_readable :: "json \<Rightarrow> bool" where
  "body_is_readable body =
     (case body of
        JObj pairs \<Rightarrow>
          (case map_of (dict_items pairs) ''task_times'' of
             None \<Rightarrow> True
           | Some tt \<Rightarrow>
               (case tt of
                  JObj entries \<Rightarrow> list_all (\<lambda>(task, duration). number_value duration \<noteq> None)
                                    (dict_items entries)
                | JNull \<Rightarrow> False | JBool b \<Rightarrow> False | JNum x \<Rightarrow> False
                | JStr t \<Rightarrow> False | JArr vs \<Rightarrow> False))
      | JNull \<Rightarrow> False | JBool b \<Rightarrow> False | JNum x \<Rightarrow> False
      | JStr t \<Rightarrow> False | JArr vs \<Rightarrow> False)"

definition outcome_is_readable :: "http_outcome \<Rightarrow> bool" where
  "outcome_is_readable outcome =
     (case outcome of
        Ok_response latency data \<Rightarrow> body_is_readable data
      | Request_failed \<Rightarrow> True
      | Status_error \<Rightarrow> True
      | Body_error \<Rightarrow> True
      | Handler_raised e \<Rightarrow> True)"

record bench_results =
  service_url :: string
  total_requests :: int
  successful_requests :: int
  errors :: int
  error_rate :: real
  total_time_seconds :: real
  throughput_rps :: real
  avg_latency_ms :: real
  p50_latency_ms :: real
  p95_latency_ms :: real
  p99_latency_ms :: real
  max_latency_ms :: real
  min_latency_ms :: real
  task_statistics :: "(string \<times> task_stat) list"
  raw_latencies :: "real list"

text \<open>
  \<open>attempt i\<close> is what happens to request number \<open>i\<close> and \<open>total_time\<close> is
  \<^verbatim>\<open>time.time() - start_time\<close> as measured after the gather. The result is \<open>None\<close> when
  the call never returns: \<^verbatim>\<open>asyncio.Semaphore(0)\<close> admits no task, so a gather over at
  least one task waits for ever; \<^verbatim>\<open>asyncio.Semaphore\<close> raises \<^verbatim>\<open>ValueError\<close> on a negative
  value. \<^verbatim>\<open>range(num_requests)\<close> is empty for \<open>num_requests \<le> 0\<close>, as \<open>[1..num_requests]\<close>
  is. The task times are collected and the task statistics computed (lines 153-166)
  before the returned dict is built, whose entries are evaluated in the order written;
  an exception raised on the way leaves the call.
\<close>

definition benchmark_service_threaded ::
  "(int \<Rightarrow> http_outcome) \<Rightarrow> real \<Rightarrow> string \<Rightarrow> string \<Rightarrow> int \<Rightarrow> int
   \<Rightarrow> (exn + bench_results) option"
where
  "benchmark_service_threaded attempt total_time url topic num_requests max_workers =
     (if max_workers < 0 then Some (Inl ValueError)
      else if max_workers = 0 \<and> 0 < num_requests then None
      else
        (let results = map (\<lambda>i. make_request (attempt i)) [1..num_requests]
         in case process_results results ([], 0, []) of
              (latencies, errs, responses) \<Rightarrow>
                Some (
                  bind_exn (collect_task_times responses []) (\<lambda>task_times.
                  bind_exn (task_stats_of task_times) (\<lambda>task_stats.
                  bind_exn (avg_latency_ms_of latencies) (\<lambda>avg.
                  bind_exn (p50_latency_ms_of latencies) (\<lambda>p50.
                  bind_exn (p95_latency_ms_of latencies) (\<lambda>p95.
                  bind_exn (p99_latency_ms_of latencies) (\<lambda>p99.
                  bind_exn (max_latency_ms_of latencies) (\<lambda>mx.
                  bind_exn (min_latency_ms_of latencies) (\<lambda>mn.
                  Inr \<lparr>service_url = url,
                       total_requests = num_requests,
                       successful_requests = int (length latencies),
                       errors = errs,
                       error_rate =
                         (if num_requests > 0 then of_int errs / of_int num_requests else 0),
                       total_time_seconds = total_time,
                       throughput_rps =
                         (if total_time > 0 then real (length latencies) / total_time else 0),
                       avg_latency_ms = avg,
                       p50_latency_ms = p50,
                       p95_latency_ms = p95,
                       p99_latency_ms = p99,
                       max_latency_ms = mx,
                       min_latency_ms = mn,
                       task_statistics = task_stats,
                       raw_latencies = latencies\<rparr>)))))))))))"

subsection \<open>Observable effects\<close>

text \<open>
  What the comparison run does to the outside world, as a trace: requests sent, monitor
  threads started and stopped, the file, and the console lines that carry computed
  values (layout and formatting of the console are left out). \<open>File_opened p\<close> is a
  successful \<^verbatim>\<open>open(p, "w")\<close>: from there on the file exists and its former content is
  gone. \<open>File_written p doc\<close> is a \<^verbatim>\<open>json.dump\<close> that ran to its end, with the file
  closed holding \<open>doc\<close>; when the dump raises instead, the file is left with some
  beginning of the text.
\<close>

datatype console_line =
    Banner string int int bool
  | Service_running string
  | Service_unavailable string exn
  | Benchmark_completed string int int
  | Ratio_row string real real real
  | Plain_row string real real
  | No_metrics_note
  | Results_saved

datatype event =
    Get_health string
  | Post_research string int
  | Monitor_started "string list"
  | Monitor_stopped "string list"
  | File_opened string
  | File_written string json
  | Console console_line

text \<open>
  The POSTs the call issues, in task order: none when the semaphore cannot be built or
  admits no task.
\<close>

definition dispatched_requests :: "string \<Rightarrow> int \<Rightarrow> int \<Rightarrow> event list" where
  "dispatched_requests url num_requests max_workers =
     (if 0 < max_workers then map (Post_research url) [1..num_requests] else [])"

text \<open>Reading a trace: which events are requests, monitor starts and file writes.\<close>

fun is_dispatch :: "event \<Rightarrow> bool" where
  "is_dispatch (Post_research url i) = True"
| "is_dispatch ev = False"

fun is_monitor_start :: "event \<Rightarrow> bool" where
  "is_monitor_start (Monitor_started names) = True"
| "is_monitor_start ev = False"

fun is_file_write :: "event \<Rightarrow> bool" where
  "is_file_write (File_opened path) = True"
| "is_file_write (File_written path doc) = True"
| "is_file_write ev = False"

fun written_documents :: "event list \<Rightarrow> json list" where
  "written_documents [] = []"
| "written_documents (File_written path doc # tr) = doc # written_documents tr"
| "written_documents (ev # tr) = written_documents tr"

subsection \<open>The comparison table\<close>

text \<open>
  Lines 356-366: \<^verbatim>\<open>avg_improvement = python_avg / rust_avg if rust_avg > 0 else 0\<close>, and
  the same for p50 and p95.
\<close>

record latency_comparison =
  avg_improvement :: real
  p50_improvement :: real
  p95_improvement :: real

definition latency_improvements :: "bench_results \<Rightarrow> bench_results \<Rightarrow> latency_comparison" where
  "latency_improvements rust_results python_results =
     (let rust_avg = avg_latency_ms rust_results;
          python_avg = avg_latency_ms python_results;
          rust_p50 = p50_latency_ms rust_results;
          python_p50 = p50_latency_ms python_results;
          rust_p95 = p95_latency_ms rust_results;
          python_p95 = p95_latency_ms python_results
      in \<lparr>avg_improvement = (if rust_avg > 0 then python_avg / rust_avg else 0),
          p50_improvement = (if rust_p50 > 0 then python_p50 / rust_p50 else 0),
          p95_improvement = (if rust_p95 > 0 then python_p95 / rust_p95 else 0)\<rparr>)"

definition latency_rows :: "bench_results \<Rightarrow> bench_results \<Rightarrow> console_line list" where
  "latency_rows rust_results python_results =
     (let imp = latency_improvements rust_results python_results
      in [Ratio_row ''Avg Latency (ms)'' (avg_latency_ms rust_results)
            (avg_latency_ms python_results) (avg_improvement imp),
          Ratio_row ''P50 Latency (ms)'' (p50_latency_ms rust_results)
            (p50_latency_ms python_results) (p50_improvement imp),
          Ratio_row ''P95 Latency (ms)'' (p95_latency_ms rust_results)
            (p95_latency_ms python_results) (p95_improvement imp),
          Plain_row ''Max Latency (ms)'' (max_latency_ms rust_results)
            (max_latency_ms python_results),
          Plain_row ''Min Latency (ms)'' (min_latency_ms rust_results)
            (min_latency_ms python_results),
          Plain_row ''Total Time (s)'' (total_time_seconds rust_results)
            (total_time_seconds python_results),
          Plain_row ''Throughput (req/s)'' (throughput_rps rust_results)
            (throughput_rps python_results),
          Plain_row ''Successful Requests'' (of_int (successful_requests rust_results))
            (of_int (successful_requests python_results)),
          Plain_row ''Error Rate (%)'' (error_rate rust_results * 100)
            (error_rate python_results * 100)])"

text \<open>Lines 385-394, inside the guard of line 381.\<close>

record resource_comparison =
  rust_avg_cpu :: real
  rust_avg_memory :: real
  rust_max_memory :: real
  python_avg_cpu :: real
  python_avg_memory :: real
  python_max_memory :: real
  cpu_improvement :: real
  memory_improvement :: real

definition resource_improvements ::
  "ResourceMetrics list \<Rightarrow> ResourceMetrics list \<Rightarrow> exn + resource_comparison"
where
  "resource_improvements rust_resource_metrics python_resource_metrics =
     bind_exn (statistics_mean (map cpu_percent rust_resource_metrics)) (\<lambda>rcpu.
     bind_exn (statistics_mean (map memory_mb rust_resource_metrics)) (\<lambda>rmem.
     bind_exn (py_max (map memory_mb rust_resource_metrics)) (\<lambda>rmax.
     bind_exn (statistics_mean (map cpu_percent python_resource_metrics)) (\<lambda>pcpu.
     bind_exn (statistics_mean (map memory_mb python_resource_metrics)) (\<lambda>pmem.
     bind_exn (py_max (map memory_mb python_resource_metrics)) (\<lambda>pmax.
     Inr \<lparr>rust_avg_cpu = rcpu, rust_avg_memory = rmem, rust_max_memory = rmax,
          python_avg_cpu = pcpu, python_avg_memory = pmem, python_max_memory = pmax,
          cpu_improvement = (if rcpu > 0 then pcpu / rcpu else 0),
          memory_improvement = (if rmem > 0 then pmem / rmem else 0)\<rparr>))))))"

definition resource_rows ::
  "bool \<Rightarrow> ResourceMetrics list \<Rightarrow> ResourceMetrics list \<Rightarrow> exn + console_line list"
where
  "resource_rows monitor_resources rust_resource_metrics python_resource_metrics =
     (if monitor_resources \<and> rust_resource_metrics \<noteq> [] \<and> python_resource_metrics \<noteq> []
      then bind_exn (resource_improvements rust_resource_metrics python_resource_metrics) (\<lambda>c.
             Inr [Ratio_row ''Avg CPU (%)'' (rust_avg_cpu c) (python_avg_cpu c) (cpu_improvement c),
                  Ratio_row ''Avg Memory (MB)'' (rust_avg_memory c) (python_avg_memory c)
                    (memory_improvement c),
                  Plain_row ''Max Memory (MB)'' (rust_max_memory c) (python_max_memory c)])
      else if monitor_resources then Inr [No_metrics_note]
      else Inr [])"

text \<open>Lines 407-415: one row per task, in sorted order, that both services report.\<close>

definition task_rows :: "bench_results \<Rightarrow> bench_results \<Rightarrow> console_line list" where
  "task_rows rust_results python_results =
     (let all_tasks = remdups (map fst (task_statistics rust_results)
                               @ map fst (task_statistics python_results))
      in concat (map (\<lambda>task.
            let rust_avg = (case map_of (task_statistics rust_results) task of
                              None \<Rightarrow> 0 | Some s \<Rightarrow> avg_ms s);
                python_avg = (case map_of (task_statistics python_results) task of
                                None \<Rightarrow> 0 | Some s \<Rightarrow> avg_ms s)
            in if rust_avg > 0 \<and> python_avg > 0
               then [Ratio_row task rust_avg python_avg (python_avg / rust_avg)]
               else [])
          (sort all_tasks)))"

subsection \<open>The persisted document\<close>

text \<open>Lines 418-436: the dict handed to \<^verbatim>\<open>json.dump\<close>, keys in the order written.\<close>

definition task_stat_json :: "task_stat \<Rightarrow> json" where
  "task_stat_json s =
     JObj [(''avg_ms'', JNum (avg_ms s)), (''p50_ms'', p50_ms s), (''p95_ms'', p95_ms s)]"

definition results_json :: "bench_results \<Rightarrow> json" where
  "results_json r =
     JObj [(''service_url'', JStr (service_url r)),
           (''total_requests'', JNum (of_int (total_requests r))),
           (''successful_requests'', JNum (of_int (successful_requests r))),
           (''errors'', JNum (of_int (errors r))),
           (''error_rate'', JNum (error_rate r)),
           (''total_time_seconds'', JNum (total_time_seconds r)),
           (''throughput_rps'', JNum (throughput_rps r)),
           (''avg_latency_ms'', JNum (avg_latency_ms r)),
           (''p50_latency_ms'', JNum (p50_latency_ms r)),
           (''p95_latency_ms'', JNum (p95_latency_ms r)),
           (''p99_latency_ms'', JNum (p99_latency_ms r)),
           (''max_latency_ms'', JNum (max_latency_ms r)),
           (''min_latency_ms'', JNum (min_latency_ms r)),
           (''task_statistics'',
              JObj (map (\<lambda>(task, s). (task, task_stat_json s)) (task_statistics r))),
           (''raw_latencies'', JArr (map JNum (raw_latencies r)))]"

definition metrics_json :: "ResourceMetrics list \<Rightarrow> json" where
  "metrics_json ms =
     (if ms \<noteq> []
      then JArr (map (\<lambda>m. JObj [(''cpu_percent'', JNum (cpu_percent m)),
                                (''memory_mb'', JNum (memory_mb m)),
                                (''threads'', JNum (of_int (threads m)))]) ms)
      else JArr [])"

definition results_document ::
  "real \<Rightarrow> string \<Rightarrow> int \<Rightarrow> int \<Rightarrow> bool \<Rightarrow> bench_results \<Rightarrow> bench_results
   \<Rightarrow> ResourceMetrics list \<Rightarrow> ResourceMetrics list \<Rightarrow> json"
where
  "results_document timestamp topic num_requests max_workers monitor_resources
     rust_results python_results rust_resource_metrics python_resource_metrics =
     JObj [(''timestamp'', JNum timestamp),
           (''benchmark_config'',
              JObj [(''topic'', JStr topic),
                    (''num_requests'', JNum (of_int num_requests)),
                    (''max_workers'', JNum (of_int max_workers)),
                    (''monitor_resources'', JBool monitor_resources)]),
           (''rust_results'', results_json rust_results),
           (''python_results'', results_json python_results),
           (''rust_resource_metrics'', metrics_json rust_resource_metrics),
           (''python_resource_metrics'', metrics_json python_resource_metrics)]"

text \<open>Reading a document: the keys of an object and the value under a key.\<close>

definition json_keys :: "json \<Rightarrow> string list" where
  "json_keys d = (case d of JObj entries \<Rightarrow> map fst entries | _ \<Rightarrow> [])"

definition json_get :: "json \<Rightarrow> string \<Rightarrow> json option" where
  "json_get d k = (case d of JObj entries \<Rightarrow> map_of entries k | _ \<Rightarrow> None)"

definition json_items :: "json \<Rightarrow> json list" where
  "json_items d = (case d of JArr items \<Rightarrow> items | _ \<Rightarrow> [])"

subsection \<open>\<^verbatim>\<open>run_comparison_benchmark\<close>\<close>

text \<open>
  The environment of a run. \<open>health w url\<close> is the exception raised by the probe
  \<^verbatim>\<open>client.get(url/health)\<close> followed by \<^verbatim>\<open>raise_for_status()\<close>, \<open>None\<close> when neither
  raises; \<open>post_research w url i\<close> is the fate of request \<open>i\<close> to \<open>url\<close>; \<open>wall_time w url\<close>
  the duration measured around its batch; \<open>process_tables w names\<close> the process tables
  seen by the ticks that the monitor for \<open>names\<close> runs between its start and its stop;
  \<open>now w\<close> the clock read for the timestamp; \<open>open_error w\<close> the exception raised by
  \<^verbatim>\<open>open("benchmark_results.json", "w")\<close>, and \<open>dump_error w\<close> the one raised by
  \<^verbatim>\<open>json.dump\<close> or by closing the file, each \<open>None\<close> when the step succeeds.
\<close>

record world =
  health :: "string \<Rightarrow> exn option"
  post_research :: "string \<Rightarrow> int \<Rightarrow> http_outcome"
  wall_time :: "string \<Rightarrow> real"
  process_tables :: "string list \<Rightarrow> proc_table list"
  now :: real
  open_error :: "exn option"
  dump_error :: "exn option"

text \<open>
  \<^verbatim>\<open>start_monitoring()\<close> empties the list and starts the loop with the default interval
  of one second; \<^verbatim>\<open>stop_monitoring()\<close> returns \<^verbatim>\<open>self.metrics\<close>.
\<close>

definition stop_monitoring :: "world \<Rightarrow> string list \<Rightarrow> ResourceMetrics list" where
  "stop_monitoring w process_names =
     monitor_loop process_names 1 []
       (map (\<lambda>tb. \<lparr>monitoring = True, table = tb\<rparr>) (process_tables w process_names))"

text \<open>
  Lines 315-324 and 331-340: start the monitor if there is one, run the batch, stop the
  monitor. An exception of the batch, or a batch that never returns, leaves the monitor
  running.
\<close>

definition measure_service ::
  "world \<Rightarrow> string list option \<Rightarrow> string \<Rightarrow> string \<Rightarrow> int \<Rightarrow> int
   \<Rightarrow> (exn + bench_results \<times> ResourceMetrics list) option \<times> event list"
where
  "measure_service w monitor url topic num_requests max_workers =
     (let tr = (case monitor of None \<Rightarrow> [] | Some names \<Rightarrow> [Monitor_started names])
               @ dispatched_requests url num_requests max_workers
      in case benchmark_service_threaded (post_research w url) (wall_time w url)
                url topic num_requests max_workers of
           None \<Rightarrow> (None, tr)
         | Some (Inl e) \<Rightarrow> (Some (Inl e), tr)
         | Some (Inr results) \<Rightarrow>
             (case monitor of
                None \<Rightarrow> (Some (Inr (results, [])), tr)
              | Some names \<Rightarrow>
                  (Some (Inr (results, stop_monitoring w names)),
                   tr @ [Monitor_stopped names])))"

text \<open>Lines 347-441: print the tables, then open the file and dump the document.\<close>

definition report_and_save ::
  "world \<Rightarrow> string \<Rightarrow> int \<Rightarrow> int \<Rightarrow> bool \<Rightarrow> bench_results \<Rightarrow> bench_results
   \<Rightarrow> ResourceMetrics list \<Rightarrow> ResourceMetrics list \<Rightarrow> (exn + unit) option \<times> event list"
where
  "report_and_save w topic num_requests max_workers monitor_resources
     rust_results python_results rust_resource_metrics python_resource_metrics =
     (let tr = map Console (latency_rows rust_results python_results)
      in case resource_rows monitor_resources rust_resource_metrics python_resource_metrics of
           Inl e \<Rightarrow> (Some (Inl e), tr)
         | Inr rrows \<Rightarrow>
             (let tr' = tr @ map Console rrows
                        @ map Console (task_rows rust_results python_results)
              in case open_error w of
                   Some e \<Rightarrow> (Some (Inl e), tr')
                 | None \<Rightarrow>
                     (case dump_error w of
                        Some e \<Rightarrow> (Some (Inl e), tr' @ [File_opened ''benchmark_results.json''])
                      | None \<Rightarrow>
                          (Some (Inr ()),
                           tr' @ [File_opened ''benchmark_results.json'',
                                  File_written ''benchmark_results.json''
                                    (results_document (now w) topic num_requests max_workers
                                       monitor_resources rust_results python_results
                                       rust_resource_metrics python_resource_metrics),
                                  Console Results_saved]))))"

text \<open>Lines 303-343: the Python service is measured first, then the Rust service.\<close>

definition run_benchmarks ::
  "world \<Rightarrow> string \<Rightarrow> string \<Rightarrow> string \<Rightarrow> int \<Rightarrow> int \<Rightarrow> bool
   \<Rightarrow> (exn + unit) option \<times> event list"
where
  "run_benchmarks w rust_url python_url topic num_requests max_workers monitor_resources =
     (let rust_monitor =
            (if monitor_resources then Some [''rust-graphflow'', ''target/release''] else None);
          python_monitor =
            (if monitor_resources then Some [''python'', ''uvicorn'', ''main.py''] else None)
      in case measure_service w python_monitor python_url topic num_requests max_workers of
           (None, ptr) \<Rightarrow> (None, ptr)
         | (Some (Inl e), ptr) \<Rightarrow> (Some (Inl e), ptr)
         | (Some (Inr (python_results, python_resource_metrics)), ptr) \<Rightarrow>
             (let tr = ptr @ [Console (Benchmark_completed ''Python''
                                (successful_requests python_results)
                                (total_requests python_results))]
              in case measure_service w rust_monitor rust_url topic num_requests max_workers of
                   (None, rtr) \<Rightarrow> (None, tr @ rtr)
                 | (Some (Inl e), rtr) \<Rightarrow> (Some (Inl e), tr @ rtr)
                 | (Some (Inr (rust_results, rust_resource_metrics)), rtr) \<Rightarrow>
                     (case report_and_save w topic num_requests max_workers monitor_resources
                             rust_results python_results
                             rust_resource_metrics python_resource_metrics of
                        (res, str) \<Rightarrow>
                          (res, tr @ rtr
                                @ [Console (Benchmark_completed ''Rust''
                                     (successful_requests rust_results)
                                     (total_requests rust_results))]
                                @ str))))"

text \<open>
  The whole run. The function has no return value: a failed probe ends it with a plain
  \<^verbatim>\<open>return\<close>, so the result is \<open>Some (Inr ())\<close> both then and after a completed run,
  \<open>Some (Inl e)\<close> when exception \<open>e\<close> leaves the function, \<open>None\<close> when it never returns.
\<close>

definition run_comparison_benchmark ::
  "world \<Rightarrow> string \<Rightarrow> string \<Rightarrow> string \<Rightarrow> int \<Rightarrow> int \<Rightarrow> bool
   \<Rightarrow> (exn + unit) option \<times> event list"
where
  "run_comparison_benchmark w rust_url python_url topic num_requests max_workers
     monitor_resources =
     (let tr0 = [Console (Banner topic num_requests max_workers monitor_resources),
                 Get_health rust_url]
      in case health w rust_url of
           Some e \<Rightarrow> (Some (Inr ()), tr0 @ [Console (Service_unavailable ''Rust'' e)])
         | None \<Rightarrow>
             (let tr1 = tr0 @ [Console (Service_running ''Rust''), Get_health python_url]
              in case health w python_url of
                   Some e \<Rightarrow>
                     (Some (Inr ()), tr1 @ [Console (Service_unavailable ''Python'' e)])
                 | None \<Rightarrow>
                     (case run_benchmarks w rust_url python_url topic num_requests
                             max_workers monitor_resources of
                        (res, tr) \<Rightarrow> (res, tr1 @ [Console (Service_running ''Python'')] @ tr))))"

subsection \<open>Example inputs\<close>

text \<open>Process tables and runs on which the properties below are exercised.\<close>

definition python_proc :: proc_entry where
  "python_proc = Info \<lparr>info_name = Some ''python3'', info_cpu_percent = Some 5,
                       info_memory_rss = Some 2097152, info_num_threads = Some 4\<rparr>"

definition shell_proc :: proc_entry where
  "shell_proc = Info \<lparr>info_name = Some ''bash'', info_cpu_percent = None,
                      info_memory_rss = Some 1048576, info_num_threads = Some 1\<rparr>"

definition quiet_table :: proc_table where
  "quiet_table = \<lparr>yielded = [shell_proc, Inspect_raises NoSuchProcess], iter_error = None\<rparr>"

definition busy_table :: proc_table where
  "busy_table = \<lparr>yielded = [shell_proc, python_proc, Inspect_raises AccessDenied, python_proc],
                  iter_error = None\<rparr>"

definition broken_table :: proc_table where
  "broken_table = \<lparr>yielded = [python_proc], iter_error = Some OSError\<rparr>"

text \<open>
  A world in which both services are healthy, the second request of each batch fails and
  the others take 100 ms, and the file can be written; the same world with the Python
  service unreachable, with a directory that cannot be written, and with a disk that
  fills up during the dump.
\<close>

definition example_body :: json where
  "example_body =
     JObj [(''result'', JStr ''done''),
           (''task_times'', JObj [(''search'', JNum 40), (''summarize'', JNum 60)])]"

definition example_world :: world where
  "example_world =
     \<lparr>health = (\<lambda>url. None),
      post_research = (\<lambda>url i. if i = 2 then Request_failed else Ok_response 100 example_body),
      wall_time = (\<lambda>url. 2),
      process_tables = (\<lambda>names. [busy_table]),
      now = 1000,
      open_error = None,
      dump_error = None\<rparr>"

definition python_down_world :: world where
  "python_down_world =
     example_world\<lparr>health := (\<lambda>url. if url = ''http://localhost:3001''
                                       then Some ConnectError else None)\<rparr>"

definition readonly_disk_world :: world where
  "readonly_disk_world = example_world\<lparr>open_error := Some OSError\<rparr>"

definition full_disk_world :: world where
  "full_disk_world = example_world\<lparr>dump_error := Some OSError\<rparr>"

text \<open>The result of a batch of two requests that both fail, measured over three seconds.\<close>

definition all_failed_results :: bench_results where
  "all_failed_results =
     \<lparr>service_url = ''http://localhost:3000'',
      total_requests = 2,
      successful_requests = 0,
      errors = 2,
      error_rate = 1,
      total_time_seconds = 3,
      throughput_rps = 0,
      avg_latency_ms = 0,
      p50_latency_ms = 0,
      p95_latency_ms = 0,
      p99_latency_ms = 0,
      max_latency_ms = 0,
      min_latency_ms = 0,
      task_statistics = [],
      raw_latencies = []\<rparr>"

text \<open>
  The result of a batch of three requests in the example world: the second fails, the
  others take 100 ms, and the batch lasts two seconds.
\<close>

definition example_results :: "string \<Rightarrow> bench_results" where
  "example_results url =
     \<lparr>service_url = url,
      total_requests = 3,
      successful_requests = 2,
      errors = 1,
      error_rate = 1 / 3,
      total_time_seconds = 2,
      throughput_rps = 1,
      avg_latency_ms = 100,
      p50_latency_ms = 100,
      p95_latency_ms = 100,
      p99_latency_ms = 100,
      max_latency_ms = 100,
      min_latency_ms = 100,
      task_statistics =
        [(''search'', \<lparr>avg_ms = 40, p50_ms = JNum 40, p95_ms = JNum 40\<rparr>),
         (''summarize'', \<lparr>avg_ms = 60, p50_ms = JNum 60, p95_ms = JNum 60\<rparr>)],
      raw_latencies = [100, 100]\<rparr>"

section \<open>Properties\<close>

subsection \<open>Where the statistics raise and where they do not\<close>

lemma quantiles_index:
  assumes "2 \<le> length xs" "1 \<le> n" "0 \<le> k" "k < n - 1"
  shows "bind_exn (statistics_quantiles xs n) (\<lambda>q. py_index q k)
         = Inr (quantile_cut (sort xs) n (k + 1))"
  using assms
  by (simp add: statistics_quantiles_def bind_exn_def py_index_def Let_def add.commute)

lemma py_max_Max: "xs \<noteq> [] \<Longrightarrow> py_max xs = Inr (Max (set xs))"
  by (cases xs) (simp_all add: py_max_def Max.set_eq_fold[symmetric])

lemma py_min_Min: "xs \<noteq> [] \<Longrightarrow> py_min xs = Inr (Min (set xs))"
  by (cases xs) (simp_all add: py_min_def Min.set_eq_fold[symmetric])

lemma sort_key_Nil_iff: "sort_key f xs = [] \<longleftrightarrow> xs = []"
  using length_sort[of f xs] by (metis length_0_conv)

lemma avg_total: "\<exists>v. avg_latency_ms_of l = Inr v"
  by (simp add: avg_latency_ms_of_def statistics_mean_def)

lemma median_value:
  "xs \<noteq> [] \<Longrightarrow> statistics_median xs =
     Inr (if length xs mod 2 = 1 then sort xs ! (length xs div 2)
          else (sort xs ! (length xs div 2 - 1) + sort xs ! (length xs div 2)) / 2)"
  by (simp add: statistics_median_def Let_def sort_key_Nil_iff)

lemma p50_total: "\<exists>v. p50_latency_ms_of l = Inr v"
  unfolding p50_latency_ms_of_def using median_value[of l] by (cases "l = []") simp_all

lemma p95_total: "\<exists>v. p95_latency_ms_of l = Inr v"
  by (simp add: p95_latency_ms_of_def quantiles_index py_max_Max)

lemma p99_total: "\<exists>v. p99_latency_ms_of l = Inr v"
  by (simp add: p99_latency_ms_of_def quantiles_index py_max_Max)

lemma max_total: "\<exists>v. max_latency_ms_of l = Inr v"
  by (simp add: max_latency_ms_of_def py_max_Max)

lemma min_total: "\<exists>v. min_latency_ms_of l = Inr v"
  by (simp add: min_latency_ms_of_def py_min_Min)

lemma median_of_durations_total: "tms \<noteq> [] \<Longrightarrow> \<exists>m. median_of_durations tms = Inr m"
  by (simp add: median_of_durations_def Let_def sort_key_Nil_iff)

lemma max_of_durations_total: "tms \<noteq> [] \<Longrightarrow> \<exists>m. max_of_durations tms = Inr m"
  by (cases tms) (simp_all add: max_of_durations_def)

lemma p95_of_durations_total:
  "20 < length xs \<Longrightarrow>
   \<exists>p. bind_exn (statistics_quantiles xs 20) (\<lambda>q. bind_exn (py_index q 18) (\<lambda>p. Inr (JNum p)))
        = Inr p"
  by (simp add: statistics_quantiles_def bind_exn_def py_index_def Let_def)

lemma task_stat_total:
  assumes "tms \<noteq> []" "list_all (\<lambda>v. number_value v \<noteq> None) tms"
  shows "\<exists>s. task_stat_of tms = Inr s"
proof -
  have n: "numbers_of tms = Inr (map value_of tms)"
    using assms(2) by (simp add: numbers_of_def)
  have a: "statistics_mean (map value_of tms)
           = Inr (sum_list (map value_of tms) / real (length tms))"
    using assms(1) by (simp add: statistics_mean_def)
  obtain m where m: "median_of_durations tms = Inr m"
    using median_of_durations_total[OF assms(1)] by blast
  obtain p where p: "(if length tms > 20
               then bind_exn (statistics_quantiles (map value_of tms) 20) (\<lambda>q.
                    bind_exn (py_index q 18) (\<lambda>p. Inr (JNum p)))
               else if tms \<noteq> [] then max_of_durations tms else Inr (JNum 0)) = Inr p"
    using p95_of_durations_total[of "map value_of tms"] max_of_durations_total[OF assms(1)]
      assms(1)
    by (cases "20 < length tms") auto
  show ?thesis
    unfolding task_stat_of_def by (simp add: n a m p bind_exn_def)
qed

lemma task_stat_not_numbers:
  "\<not> list_all (\<lambda>v. number_value v \<noteq> None) tms \<Longrightarrow> task_stat_of tms = Inl TypeError"
  by (simp add: task_stat_of_def numbers_of_def bind_exn_def)

lemma task_stats_total:
  "\<forall>(k, tms) \<in> set xs. tms \<noteq> [] \<and> list_all (\<lambda>v. number_value v \<noteq> None) tms
   \<Longrightarrow> \<exists>ss. task_stats_of xs = Inr ss"
proof (induction xs)
  case Nil
  then show ?case by simp
next
  case (Cons a xs)
  obtain k tms where a: "a = (k, tms)" by (cases a)
  with Cons.prems have "tms \<noteq> []" "list_all (\<lambda>v. number_value v \<noteq> None) tms" by simp_all
  then obtain s where s: "task_stat_of tms = Inr s" using task_stat_total by blast
  from Cons obtain ss where "task_stats_of xs = Inr ss" by auto
  with a s show ?case by (simp add: bind_exn_def)
qed

lemma add_time_usable:
  "\<forall>(k, tms) \<in> set acc. tms \<noteq> [] \<and> list_all (\<lambda>v. number_value v \<noteq> None) tms \<Longrightarrow>
   number_value d \<noteq> None \<Longrightarrow>
   \<forall>(k, tms) \<in> set (add_time task d acc).
      tms \<noteq> [] \<and> list_all (\<lambda>v. number_value v \<noteq> None) tms"
  by (induction task d acc rule: add_time.induct) auto

lemma fold_add_time_usable:
  "\<forall>(k, tms) \<in> set acc. tms \<noteq> [] \<and> list_all (\<lambda>v. number_value v \<noteq> None) tms \<Longrightarrow>
   list_all (\<lambda>(task, duration). number_value duration \<noteq> None) entries \<Longrightarrow>
   \<forall>(k, tms) \<in> set (fold (\<lambda>(task, duration) a. add_time task duration a) entries acc).
      tms \<noteq> [] \<and> list_all (\<lambda>v. number_value v \<noteq> None) tms"
proof (induction entries arbitrary: acc)
  case Nil
  then show ?case by simp
next
  case (Cons it entries)
  obtain t d where it: "it = (t, d)" by (cases it)
  with Cons.prems(2) have d: "number_value d \<noteq> None"
    and rest: "list_all (\<lambda>(task, duration). number_value duration \<noteq> None) entries"
    by simp_all
  from Cons.IH[OF add_time_usable[OF Cons.prems(1) d, of t] rest] it
  show ?case by simp
qed

lemma readable_body_task_times:
  "body_is_readable body \<Longrightarrow>
   \<exists>entries. task_times_of body = Inr entries
     \<and> list_all (\<lambda>(task, duration). number_value duration \<noteq> None) entries"
  by (auto simp: body_is_readable_def task_times_of_def split: json.splits option.splits)

lemma unreadable_body_raises:
  "\<not> body_is_readable body \<Longrightarrow>
   task_times_of body = Inl AttributeError
   \<or> (\<exists>entries. task_times_of body = Inr entries
        \<and> \<not> list_all (\<lambda>(task, duration). number_value duration \<noteq> None) entries)"
  by (auto simp: body_is_readable_def task_times_of_def split: json.splits option.splits)

lemma collect_task_times_usable:
  "list_all body_is_readable responses \<Longrightarrow>
   \<forall>(k, tms) \<in> set acc. tms \<noteq> [] \<and> list_all (\<lambda>v. number_value v \<noteq> None) tms \<Longrightarrow>
   \<exists>tt. collect_task_times responses acc = Inr tt
      \<and> (\<forall>(k, tms) \<in> set tt. tms \<noteq> [] \<and> list_all (\<lambda>v. number_value v \<noteq> None) tms)"
proof (induction responses arbitrary: acc)
  case Nil
  then show ?case by simp
next
  case (Cons r rs)
  from Cons.prems(1) have r: "body_is_readable r" and rs: "list_all body_is_readable rs"
    by simp_all
  from readable_body_task_times[OF r] obtain entries where e: "task_times_of r = Inr entries"
    and n: "list_all (\<lambda>(task, duration). number_value duration \<noteq> None) entries" by blast
  from Cons.IH[OF rs fold_add_time_usable[OF Cons.prems(2) n]] e
  show ?case by simp
qed

lemma task_statistics_total:
  assumes "list_all body_is_readable responses"
  shows "\<exists>tt ss. collect_task_times responses [] = Inr tt \<and> task_stats_of tt = Inr ss"
proof -
  from collect_task_times_usable[OF assms, of "[]"]
  obtain tt where "collect_task_times responses [] = Inr tt"
    and "\<forall>(k, tms) \<in> set tt. tms \<noteq> [] \<and> list_all (\<lambda>v. number_value v \<noteq> None) tms"
    by auto
  with task_stats_total show ?thesis by blast
qed

lemma process_results_count:
  "process_results rs (l, e, r) = (l', e', r') \<Longrightarrow>
   int (length l') + e' = int (length l) + e + int (length rs)"
proof (induction rs arbitrary: l e r)
  case Nil
  then show ?case by simp
next
  case (Cons a rs)
  then show ?case
    by (cases a) (auto split: option.splits prod.splits)
qed

lemma process_results_responses:
  "process_results rs (l, e, r) = (l', e', r') \<Longrightarrow> list_all P r \<Longrightarrow>
   (\<forall>latency data. Inr (Some (latency, data)) \<in> set rs \<longrightarrow> P data) \<Longrightarrow> list_all P r'"
proof (induction rs arbitrary: l e r)
  case Nil
  then show ?case by simp
next
  case (Cons a rs)
  show ?case
  proof (cases a)
    case (Inl x)
    with Cons.prems have "process_results rs (l, e + 1, r) = (l', e', r')" by simp
    from Cons.IH[OF this Cons.prems(2)] Cons.prems(3) show ?thesis by simp
  next
    case (Inr opt)
    show ?thesis
    proof (cases opt)
      case None
      with Inr Cons.prems have "process_results rs (l, e + 1, r) = (l', e', r')" by simp
      from Cons.IH[OF this Cons.prems(2)] Cons.prems(3) show ?thesis by simp
    next
      case (Some ld)
      obtain lat d where ld: "ld = (lat, d)" by (cases ld)
      with Some Inr Cons.prems
      have st: "process_results rs (l @ [lat], e, r @ [d]) = (l', e', r')" by simp
      from Cons.prems(3) Some Inr ld have "P d" by auto
      with Cons.prems(2) have "list_all P (r @ [d])" by simp
      from Cons.IH[OF st this] Cons.prems(3) show ?thesis by simp
    qed
  qed
qed

subsection \<open>When the dispatcher returns, and what its result holds\<close>

lemma make_request_Some:
  "make_request outcome = Inr (Some (latency, data)) \<longleftrightarrow> outcome = Ok_response latency data"
  by (cases outcome) (auto simp: make_request_def)

lemma readable_responses:
  assumes "\<forall>i \<in> {1..N}. outcome_is_readable (attempt i)"
    and "process_results (map (\<lambda>i. make_request (attempt i)) [1..N]) ([], 0, []) = (l, e, rs)"
  shows "list_all body_is_readable rs"
proof (rule process_results_responses[OF assms(2)])
  show "list_all body_is_readable []" by simp
  show "\<forall>latency data. Inr (Some (latency, data))
          \<in> set (map (\<lambda>i. make_request (attempt i)) [1..N]) \<longrightarrow> body_is_readable data"
  proof (intro allI impI)
    fix latency data
    assume "Inr (Some (latency, data)) \<in> set (map (\<lambda>i. make_request (attempt i)) [1..N])"
    then obtain i where i: "i \<in> {1..N}" and "make_request (attempt i) = Inr (Some (latency, data))"
      by auto
    then have a: "attempt i = Ok_response latency data" by (simp add: make_request_Some)
    from assms(1) i have "outcome_is_readable (attempt i)" by blast
    then show "body_is_readable data"
      unfolding a by (simp add: outcome_is_readable_def)
  qed
qed

lemma bst_returns:
  assumes "0 < max_workers" and "\<forall>i \<in> {1..N}. outcome_is_readable (attempt i)"
  shows "\<exists>r. benchmark_service_threaded attempt T url topic N max_workers = Some (Inr r)"
proof -
  obtain l e rs where pr:
    "process_results (map (\<lambda>i. make_request (attempt i)) [1..N]) ([], 0, []) = (l, e, rs)"
    by (cases "process_results (map (\<lambda>i. make_request (attempt i)) [1..N]) ([], 0, [])")
  obtain tt ts where tt: "collect_task_times rs [] = Inr tt" and ts: "task_stats_of tt = Inr ts"
    using task_statistics_total[OF readable_responses[OF assms(2) pr]] by blast
  obtain a where a: "avg_latency_ms_of l = Inr a" using avg_total by blast
  obtain b where b: "p50_latency_ms_of l = Inr b" using p50_total by blast
  obtain c where c: "p95_latency_ms_of l = Inr c" using p95_total by blast
  obtain d where d: "p99_latency_ms_of l = Inr d" using p99_total by blast
  obtain mx where mx: "max_latency_ms_of l = Inr mx" using max_total by blast
  obtain mn where mn: "min_latency_ms_of l = Inr mn" using min_total by blast
  show ?thesis
    using assms(1)
    by (simp add: benchmark_service_threaded_def pr tt ts a b c d mx mn bind_exn_def)
qed

lemma bind_exn_Inr: "bind_exn m f = Inr y \<longleftrightarrow> (\<exists>x. m = Inr x \<and> f x = Inr y)"
  by (cases m) (simp_all add: bind_exn_def)

lemma bst_fields:
  assumes "benchmark_service_threaded attempt T url topic N max_workers = Some (Inr r)"
    and "process_results (map (\<lambda>i. make_request (attempt i)) [1..N]) ([], 0, []) = (l, e, rs)"
  shows "successful_requests r = int (length l)" "errors r = e" "raw_latencies r = l"
    "total_requests r = N" "total_time_seconds r = T"
    "throughput_rps r = (if T > 0 then real (length l) / T else 0)"
    "avg_latency_ms_of l = Inr (avg_latency_ms r)"
    "p50_latency_ms_of l = Inr (p50_latency_ms r)"
    "p95_latency_ms_of l = Inr (p95_latency_ms r)"
    "p99_latency_ms_of l = Inr (p99_latency_ms r)"
    "max_latency_ms_of l = Inr (max_latency_ms r)"
    "min_latency_ms_of l = Inr (min_latency_ms r)"
  using assms
  by (auto simp: benchmark_service_threaded_def bind_exn_Inr split: if_splits)

lemma process_results_single:
  "case process_results [x] ([], 0, []) of
     (l, e, rs) \<Rightarrow> (length l = 1 \<and> e = 0) \<or> (length l = 0 \<and> e = 1)"
  by (cases x) (auto split: option.splits)

lemma process_results_no_success:
  "\<forall>x \<in> set xs. \<forall>latency data. x \<noteq> Inr (Some (latency, data)) \<Longrightarrow>
   process_results xs (l, e, rs) = (l, e + int (length xs), rs)"
proof (induction xs arbitrary: e)
  case Nil
  then show ?case by simp
next
  case (Cons x xs)
  then show ?case by (cases x) (auto split: option.splits)
qed

lemma non_object_body_raises:
  "benchmark_service_threaded (\<lambda>i. Ok_response 100 (JArr [JNum 1, JNum 2])) 2
     ''http://localhost:3000'' ''ai'' 1 1 = Some (Inl AttributeError)"
  by (simp add: benchmark_service_threaded_def upto.simps make_request_def task_times_of_def
      bind_exn_def)

lemma null_task_times_raises:
  "benchmark_service_threaded (\<lambda>i. Ok_response 100 (JObj [(''task_times'', JNull)])) 2
     ''http://localhost:3000'' ''ai'' 1 1 = Some (Inl AttributeError)"
  by (simp add: benchmark_service_threaded_def upto.simps make_request_def task_times_of_def
      dict_items_def bind_exn_def)

lemma non_numeric_duration_raises:
  "benchmark_service_threaded
     (\<lambda>i. Ok_response 100 (JObj [(''task_times'', JObj [(''search'', JStr ''fast'')])])) 2
     ''http://localhost:3000'' ''ai'' 1 1 = Some (Inl TypeError)"
  by (simp add: benchmark_service_threaded_def upto.simps make_request_def task_times_of_def
      dict_items_def task_stat_not_numbers bind_exn_def)

lemma add_time_durations:
  "(\<Union>(k, tms) \<in> set (add_time task d acc). set tms)
   = insert d (\<Union>(k, tms) \<in> set acc. set tms)"
  by (induction task d acc rule: add_time.induct) auto

lemma fold_add_time_durations:
  "(\<Union>(k, tms) \<in> set (fold (\<lambda>(task, duration) a. add_time task duration a) entries acc).
      set tms)
   = snd ` set entries \<union> (\<Union>(k, tms) \<in> set acc. set tms)"
proof (induction entries arbitrary: acc)
  case Nil
  then show ?case by simp
next
  case (Cons it entries)
  obtain t d where it: "it = (t, d)" by (cases it)
  show ?case
    unfolding it using Cons.IH[of "add_time t d acc"] add_time_durations[of t d acc]
    by auto
qed

lemma add_time_nonempty:
  "\<forall>(k, tms) \<in> set acc. tms \<noteq> [] \<Longrightarrow> \<forall>(k, tms) \<in> set (add_time task d acc). tms \<noteq> []"
  by (induction task d acc rule: add_time.induct) auto

lemma fold_add_time_nonempty:
  "\<forall>(k, tms) \<in> set acc. tms \<noteq> [] \<Longrightarrow>
   \<forall>(k, tms) \<in> set (fold (\<lambda>(task, duration) a. add_time task duration a) entries acc).
      tms \<noteq> []"
proof (induction entries arbitrary: acc)
  case Nil
  then show ?case by simp
next
  case (Cons it entries)
  obtain t d where it: "it = (t, d)" by (cases it)
  from Cons.IH[OF add_time_nonempty[OF Cons.prems, of t d]] it show ?case by simp
qed

lemma task_times_of_error: "task_times_of body = Inl e \<Longrightarrow> e = AttributeError"
  by (auto simp: task_times_of_def split: json.splits option.splits)

lemma collect_task_times_error:
  "collect_task_times responses acc = Inl e \<Longrightarrow> e = AttributeError"
proof (induction responses arbitrary: acc)
  case Nil
  then show ?case by simp
next
  case (Cons r rs)
  then show ?case
    by (cases "task_times_of r") (auto dest: task_times_of_error)
qed

lemma collect_task_times_keeps:
  "collect_task_times responses acc = Inr tt \<Longrightarrow>
   \<forall>(k, tms) \<in> set acc. tms \<noteq> [] \<Longrightarrow>
   (\<forall>(k, tms) \<in> set tt. tms \<noteq> [])
   \<and> (\<Union>(k, tms) \<in> set acc. set tms) \<subseteq> (\<Union>(k, tms) \<in> set tt. set tms)
   \<and> (\<forall>r \<in> set responses. \<forall>entries. task_times_of r = Inr entries
          \<longrightarrow> snd ` set entries \<subseteq> (\<Union>(k, tms) \<in> set tt. set tms))"
proof (induction responses arbitrary: acc)
  case Nil
  then show ?case by simp
next
  case (Cons r rs)
  from Cons.prems(1) obtain entries where e: "task_times_of r = Inr entries"
    and c: "collect_task_times rs
              (fold (\<lambda>(task, duration) a. add_time task duration a) entries acc) = Inr tt"
    by (cases "task_times_of r") auto
  let ?acc = "fold (\<lambda>(task, duration) a. add_time task duration a) entries acc"
  note ih = Cons.IH[OF c fold_add_time_nonempty[OF Cons.prems(2)]]
  have d: "(\<Union>(k, tms) \<in> set ?acc. set tms)
           = snd ` set entries \<union> (\<Union>(k, tms) \<in> set acc. set tms)"
    by (rule fold_add_time_durations)
  have a: "\<forall>(k, tms) \<in> set tt. tms \<noteq> []"
    by (rule conjunct1[OF ih])
  have sub: "(\<Union>(k, tms) \<in> set ?acc. set tms) \<subseteq> (\<Union>(k, tms) \<in> set tt. set tms)"
    by (rule conjunct1[OF conjunct2[OF ih]])
  have rest: "\<forall>r \<in> set rs. \<forall>entries. task_times_of r = Inr entries
          \<longrightarrow> snd ` set entries \<subseteq> (\<Union>(k, tms) \<in> set tt. set tms)"
    by (rule conjunct2[OF conjunct2[OF ih]])
  from sub have sub': "snd ` set entries \<union> (\<Union>(k, tms) \<in> set acc. set tms)
                       \<subseteq> (\<Union>(k, tms) \<in> set tt. set tms)"
    unfolding d .
  then have b1: "(\<Union>(k, tms) \<in> set acc. set tms) \<subseteq> (\<Union>(k, tms) \<in> set tt. set tms)"
    and b2: "snd ` set entries \<subseteq> (\<Union>(k, tms) \<in> set tt. set tms)"
    by (simp_all only: Un_subset_iff)
  have head: "\<forall>es. task_times_of r = Inr es
          \<longrightarrow> snd ` set es \<subseteq> (\<Union>(k, tms) \<in> set tt. set tms)"
    using e b2 by simp
  have all: "\<forall>r' \<in> set (r # rs). \<forall>entries. task_times_of r' = Inr entries
          \<longrightarrow> snd ` set entries \<subseteq> (\<Union>(k, tms) \<in> set tt. set tms)"
    using head rest by (simp only: list.set ball_simps insert_iff)
  from a b1 all show ?case by (intro conjI)
qed

lemma task_stats_of_error:
  "\<forall>(k, tms) \<in> set tt. tms \<noteq> [] \<Longrightarrow> task_stats_of tt = Inl e \<Longrightarrow> e = TypeError"
proof (induction tt)
  case Nil
  then show ?case by simp
next
  case (Cons a tt)
  obtain k tms where a: "a = (k, tms)" by (cases a)
  with Cons.prems(1) have ne: "tms \<noteq> []" by simp
  show ?case
  proof (cases "list_all (\<lambda>v. number_value v \<noteq> None) tms")
    case True
    from task_stat_total[OF ne True] obtain s where s: "task_stat_of tms = Inr s" by blast
    with Cons.prems(2) a have "task_stats_of tt = Inl e"
      by (cases "task_stats_of tt") (simp_all add: bind_exn_def)
    with Cons.IH Cons.prems(1) show ?thesis by simp
  next
    case False
    from task_stat_not_numbers[OF False] Cons.prems(2) a show ?thesis
      by (simp add: bind_exn_def)
  qed
qed

lemma task_stats_of_raises:
  "\<forall>(k, tms) \<in> set tt. tms \<noteq> [] \<Longrightarrow>
   \<exists>v \<in> (\<Union>(k, tms) \<in> set tt. set tms). number_value v = None \<Longrightarrow>
   task_stats_of tt = Inl TypeError"
proof (induction tt)
  case Nil
  then show ?case by simp
next
  case (Cons a tt)
  obtain k tms where a: "a = (k, tms)" by (cases a)
  with Cons.prems(1) have ne: "tms \<noteq> []" by simp
  show ?case
  proof (cases "list_all (\<lambda>v. number_value v \<noteq> None) tms")
    case True
    from task_stat_total[OF ne True] obtain s where s: "task_stat_of tms = Inr s" by blast
    from True Cons.prems(2) a
    have "\<exists>v \<in> (\<Union>(k, tms) \<in> set tt. set tms). number_value v = None"
      by (auto simp: list_all_iff)
    with Cons.IH Cons.prems(1) have "task_stats_of tt = Inl TypeError" by simp
    with s a show ?thesis by (simp add: bind_exn_def)
  next
    case False
    from task_stat_not_numbers[OF False] a show ?thesis
      by (simp add: bind_exn_def)
  qed
qed

lemma collect_task_times_all_read:
  "collect_task_times responses acc = Inr tt \<Longrightarrow>
   \<forall>r \<in> set responses. \<exists>entries. task_times_of r = Inr entries"
proof (induction responses arbitrary: acc)
  case Nil
  then show ?case by simp
next
  case (Cons r rs)
  from Cons.prems obtain entries where e: "task_times_of r = Inr entries"
    and c: "collect_task_times rs
              (fold (\<lambda>(task, duration) a. add_time task duration a) entries acc) = Inr tt"
    by (cases "task_times_of r") auto
  from Cons.IH[OF c] e show ?case by simp
qed

lemma unreadable_responses_raise:
  assumes "\<not> list_all body_is_readable responses"
  shows "collect_task_times responses [] = Inl AttributeError
         \<or> (\<exists>tt. collect_task_times responses [] = Inr tt \<and> task_stats_of tt = Inl TypeError)"
proof (cases "collect_task_times responses []")
  case (Inl e)
  with collect_task_times_error show ?thesis by blast
next
  case (Inr tt)
  from assms obtain r where r: "r \<in> set responses" "\<not> body_is_readable r"
    by (auto simp: list_all_iff)
  from collect_task_times_keeps[OF Inr]
  have ne: "\<forall>(k, tms) \<in> set tt. tms \<noteq> []"
    and keep: "\<forall>r \<in> set responses. \<forall>entries. task_times_of r = Inr entries
          \<longrightarrow> snd ` set entries \<subseteq> (\<Union>(k, tms) \<in> set tt. set tms)"
    by simp_all
  from collect_task_times_all_read[OF Inr] r(1)
  obtain entries where e: "task_times_of r = Inr entries" by blast
  with unreadable_body_raises[OF r(2)]
  have "\<not> list_all (\<lambda>(task, duration). number_value duration \<noteq> None) entries" by simp
  then obtain t d where "(t, d) \<in> set entries" "number_value d = None"
    by (auto simp: list_all_iff)
  then have "d \<in> snd ` set entries" by force
  with keep r(1) e have "d \<in> (\<Union>(k, tms) \<in> set tt. set tms)" by blast
  with \<open>number_value d = None\<close>
  have "\<exists>v \<in> (\<Union>(k, tms) \<in> set tt. set tms). number_value v = None" by blast
  from task_stats_of_raises[OF ne this] Inr show ?thesis by simp
qed

lemma responses_of_results:
  "process_results rs (l, e, r) = (l', e', r') \<Longrightarrow>
   set r' = set r \<union> {data. \<exists>latency. Inr (Some (latency, data)) \<in> set rs}"
proof (induction rs arbitrary: l e r)
  case Nil
  then show ?case by simp
next
  case (Cons a rs)
  show ?case
  proof (cases a)
    case (Inl x)
    with Cons.prems have "process_results rs (l, e + 1, r) = (l', e', r')" by simp
    from Cons.IH[OF this] Inl show ?thesis by auto
  next
    case (Inr opt)
    show ?thesis
    proof (cases opt)
      case None
      with Inr Cons.prems have "process_results rs (l, e + 1, r) = (l', e', r')" by simp
      from Cons.IH[OF this] Inr None show ?thesis by auto
    next
      case (Some ld)
      obtain lat d where ld: "ld = (lat, d)" by (cases ld)
      with Some Inr Cons.prems
      have "process_results rs (l @ [lat], e, r @ [d]) = (l', e', r')" by simp
      from Cons.IH[OF this] Inr Some ld show ?thesis by auto
    qed
  qed
qed

lemma bst_raises_on_unreadable:
  assumes "0 < max_workers" and "\<not> (\<forall>i \<in> {1..N}. outcome_is_readable (attempt i))"
  shows "benchmark_service_threaded attempt T url topic N max_workers = Some (Inl AttributeError)
         \<or> benchmark_service_threaded attempt T url topic N max_workers = Some (Inl TypeError)"
proof -
  obtain l e rs where pr:
    "process_results (map (\<lambda>i. make_request (attempt i)) [1..N]) ([], 0, []) = (l, e, rs)"
    by (cases "process_results (map (\<lambda>i. make_request (attempt i)) [1..N]) ([], 0, [])")
  from assms(2) obtain i where i: "i \<in> {1..N}" "\<not> outcome_is_readable (attempt i)" by blast
  then obtain lat d where a: "attempt i = Ok_response lat d" and d: "\<not> body_is_readable d"
    by (cases "attempt i") (simp_all add: outcome_is_readable_def)
  from a i(1) have "Inr (Some (lat, d)) \<in> set (map (\<lambda>i. make_request (attempt i)) [1..N])"
    by (force simp: make_request_def)
  with responses_of_results[OF pr] have "d \<in> set rs" by blast
  with d have "\<not> list_all body_is_readable rs" by (auto simp: list_all_iff)
  from unreadable_responses_raise[OF this] assms(1) show ?thesis
    by (auto simp: benchmark_service_threaded_def pr bind_exn_def)
qed

lemma failed_outcome_is_readable:
  "\<forall>latency data. outcome \<noteq> Ok_response latency data \<Longrightarrow> outcome_is_readable outcome"
  by (cases outcome) (simp_all add: outcome_is_readable_def)

subsection \<open>Counting attempts\<close>

text \<open>
  Claim C1. For a dispatch of \<open>N > 0\<close> requests, whatever happens to each attempt, the
  returned result satisfies \<open>successful_requests + errors = N\<close> (with as many raw
  latencies as successes); the call does return such a result whenever \<open>max_workers\<close> is
  positive and the body of every successful response is an object whose \<^verbatim>\<open>task_times\<close>,
  if present, is an object of numbers; on any other body lines 153-166 raise
  \<^verbatim>\<open>AttributeError\<close> or \<^verbatim>\<open>TypeError\<close> and there is no result; and a single gathered
  result adds exactly one latency or exactly one error, never both and never neither.
\<close>

theorem dispatch_accounts_for_every_attempt:
  "0 < N \<Longrightarrow>
   (\<forall>r. benchmark_service_threaded attempt T url topic N max_workers = Some (Inr r)
        \<longrightarrow> successful_requests r + errors r = N
            \<and> total_requests r = N
            \<and> int (length (raw_latencies r)) = successful_requests r)
   \<and> (0 < max_workers \<and> (\<forall>i \<in> {1..N}. outcome_is_readable (attempt i))
        \<longrightarrow> (\<exists>r. benchmark_service_threaded attempt T url topic N max_workers = Some (Inr r)))
   \<and> (0 < max_workers \<and> \<not> (\<forall>i \<in> {1..N}. outcome_is_readable (attempt i))
        \<longrightarrow> benchmark_service_threaded attempt T url topic N max_workers
              = Some (Inl AttributeError)
            \<or> benchmark_service_threaded attempt T url topic N max_workers
              = Some (Inl TypeError))
   \<and> (\<forall>x. case process_results [x] ([], 0, []) of
              (l, e, rs) \<Rightarrow> (length l = 1 \<and> e = 0) \<or> (length l = 0 \<and> e = 1))"
proof (intro conjI allI impI)
  fix r
  assume N: "0 < N"
    and r: "benchmark_service_threaded attempt T url topic N max_workers = Some (Inr r)"
  obtain l e rs where pr:
    "process_results (map (\<lambda>i. make_request (attempt i)) [1..N]) ([], 0, []) = (l, e, rs)"
    by (cases "process_results (map (\<lambda>i. make_request (attempt i)) [1..N]) ([], 0, [])")
  from process_results_count[OF pr] N have "int (length l) + e = N" by simp
  with bst_fields(1,2,3,4)[OF r pr]
  show "successful_requests r + errors r = N" "total_requests r = N"
    "int (length (raw_latencies r)) = successful_requests r"
    by simp_all
next
  assume "0 < max_workers \<and> (\<forall>i \<in> {1..N}. outcome_is_readable (attempt i))"
  then show "\<exists>r. benchmark_service_threaded attempt T url topic N max_workers = Some (Inr r)"
    using bst_returns by blast
next
  assume "0 < max_workers \<and> \<not> (\<forall>i \<in> {1..N}. outcome_is_readable (attempt i))"
  then show "benchmark_service_threaded attempt T url topic N max_workers
              = Some (Inl AttributeError)
            \<or> benchmark_service_threaded attempt T url topic N max_workers
              = Some (Inl TypeError)"
    using bst_raises_on_unreadable by blast
next
  fix x :: "exn + (real \<times> json) option"
  show "case process_results [x] ([], 0, []) of
          (l, e, rs) \<Rightarrow> (length l = 1 \<and> e = 0) \<or> (length l = 0 \<and> e = 1)"
    by (rule process_results_single)
qed

theorem dispatch_accounts_for_every_attempt_witness:
  "0 < (3::int)
   \<and> (\<exists>r. benchmark_service_threaded
             (\<lambda>i. if i = 2 then Request_failed else Ok_response 100 (JObj []))
             2 ''http://localhost:3000'' ''t'' 3 5 = Some (Inr r)
          \<and> successful_requests r = 2 \<and> errors r = 1
          \<and> successful_requests r + errors r = 3)"
proof -
  let ?a = "\<lambda>i::int. if i = 2 then Request_failed else Ok_response 100 (JObj [])"
  have h: "0 < (3::int)" by simp
  note t = dispatch_accounts_for_every_attempt[OF h, of ?a 2 "''http://localhost:3000''" "''t''" 5]
  have rd: "0 < (5::int) \<and> (\<forall>i \<in> {1..3}. outcome_is_readable (?a i))"
    by (simp add: outcome_is_readable_def body_is_readable_def dict_items_def)
  from t rd obtain r where r:
    "benchmark_service_threaded ?a 2 ''http://localhost:3000'' ''t'' 3 5 = Some (Inr r)"
    by blast
  with t have sum: "successful_requests r + errors r = 3" by blast
  have pr: "process_results (map (\<lambda>i. make_request (?a i)) [1..3]) ([], 0, [])
            = ([100, 100], 1, [JObj [], JObj []])"
    by (simp add: upto.simps make_request_def)
  from bst_fields(1,2)[OF r pr] sum r h show ?thesis by auto
qed

subsection \<open>No successful latency\<close>

text \<open>
  Claim C3. A result with no successful request has average, p50, p95, p99, minimum and
  maximum latency all equal to 0; and when every attempt fails the dispatcher does return
  such a result instead of raising.
\<close>

theorem empty_success_set_yields_zero_statistics:
  "(\<forall>r. benchmark_service_threaded attempt T url topic N max_workers = Some (Inr r)
         \<and> successful_requests r = 0
        \<longrightarrow> avg_latency_ms r = 0 \<and> p50_latency_ms r = 0 \<and> p95_latency_ms r = 0
            \<and> p99_latency_ms r = 0 \<and> min_latency_ms r = 0 \<and> max_latency_ms r = 0)
   \<and> ((\<forall>i \<in> {1..N}. \<forall>latency data. attempt i \<noteq> Ok_response latency data) \<and> 0 < max_workers
        \<longrightarrow> (\<exists>r. benchmark_service_threaded attempt T url topic N max_workers = Some (Inr r)
                 \<and> successful_requests r = 0))"
proof (intro conjI allI impI)
  fix r
  assume a: "benchmark_service_threaded attempt T url topic N max_workers = Some (Inr r)
             \<and> successful_requests r = 0"
  obtain l e rs where pr:
    "process_results (map (\<lambda>i. make_request (attempt i)) [1..N]) ([], 0, []) = (l, e, rs)"
    by (cases "process_results (map (\<lambda>i. make_request (attempt i)) [1..N]) ([], 0, [])")
  note f = bst_fields[OF conjunct1[OF a] pr]
  from f(1) a have l: "l = []" by simp
  from f(7) l show "avg_latency_ms r = 0" by (simp add: avg_latency_ms_of_def)
  from f(8) l show "p50_latency_ms r = 0" by (simp add: p50_latency_ms_of_def)
  from f(9) l show "p95_latency_ms r = 0" by (simp add: p95_latency_ms_of_def)
  from f(10) l show "p99_latency_ms r = 0" by (simp add: p99_latency_ms_of_def)
  from f(12) l show "min_latency_ms r = 0" by (simp add: min_latency_ms_of_def)
  from f(11) l show "max_latency_ms r = 0" by (simp add: max_latency_ms_of_def)
next
  assume a: "(\<forall>i \<in> {1..N}. \<forall>latency data. attempt i \<noteq> Ok_response latency data)
             \<and> 0 < max_workers"
  then have "\<forall>i \<in> {1..N}. outcome_is_readable (attempt i)"
    using failed_outcome_is_readable by blast
  with a obtain r where r:
    "benchmark_service_threaded attempt T url topic N max_workers = Some (Inr r)"
    using bst_returns by blast
  from a have "\<forall>x \<in> set (map (\<lambda>i. make_request (attempt i)) [1..N]).
                 \<forall>latency data. x \<noteq> Inr (Some (latency, data))"
    by (auto simp: make_request_Some)
  from process_results_no_success[OF this]
  have pr: "process_results (map (\<lambda>i. make_request (attempt i)) [1..N]) ([], 0, [])
            = ([], 0 + int (length (map (\<lambda>i. make_request (attempt i)) [1..N])), [])" .
  from bst_fields(1)[OF r pr] r
  show "\<exists>r. benchmark_service_threaded attempt T url topic N max_workers = Some (Inr r)
             \<and> successful_requests r = 0"
    by auto
qed

theorem empty_success_set_yields_zero_statistics_witness:
  "\<exists>r. benchmark_service_threaded (\<lambda>i. Request_failed) 3 ''u'' ''t'' 2 1 = Some (Inr r)
       \<and> successful_requests r = 0
       \<and> avg_latency_ms r = 0 \<and> p50_latency_ms r = 0 \<and> p95_latency_ms r = 0
       \<and> p99_latency_ms r = 0 \<and> min_latency_ms r = 0 \<and> max_latency_ms r = 0"
proof -
  note t = empty_success_set_yields_zero_statistics
             [of "\<lambda>i. Request_failed" 3 "''u''" "''t''" 2 1]
  have "(\<forall>i \<in> {1..2::int}. \<forall>latency data.
           (\<lambda>i. Request_failed) i \<noteq> Ok_response latency data) \<and> 0 < (1::int)"
    by simp
  with t obtain r where
    "benchmark_service_threaded (\<lambda>i. Request_failed) 3 ''u'' ''t'' 2 1 = Some (Inr r)
     \<and> successful_requests r = 0"
    by blast
  with t show ?thesis by blast
qed

subsection \<open>Throughput\<close>

text \<open>
  Claim C7. The reported throughput is the number of successful requests divided by the
  measured wall time when that time is positive, and 0 when it is 0.
\<close>

theorem throughput_is_successes_per_second:
  "benchmark_service_threaded attempt T url topic N max_workers = Some (Inr r) \<Longrightarrow>
   total_time_seconds r = T
   \<and> (0 < T \<longrightarrow> throughput_rps r = of_int (successful_requests r) / T)
   \<and> (T = 0 \<longrightarrow> throughput_rps r = 0)"
proof -
  assume r: "benchmark_service_threaded attempt T url topic N max_workers = Some (Inr r)"
  obtain l e rs where pr:
    "process_results (map (\<lambda>i. make_request (attempt i)) [1..N]) ([], 0, []) = (l, e, rs)"
    by (cases "process_results (map (\<lambda>i. make_request (attempt i)) [1..N]) ([], 0, [])")
  from bst_fields(1,5,6)[OF r pr] show ?thesis by simp
qed

theorem throughput_is_successes_per_second_witness:
  "(\<exists>r. benchmark_service_threaded
           (\<lambda>i. if i = 2 then Status_error else Ok_response 100 (JObj []))
           2 ''u'' ''t'' 3 5 = Some (Inr r)
        \<and> throughput_rps r = 1)
   \<and> (\<exists>r. benchmark_service_threaded
           (\<lambda>i. if i = 2 then Status_error else Ok_response 100 (JObj []))
           0 ''u'' ''t'' 3 5 = Some (Inr r)
        \<and> throughput_rps r = 0)"
proof -
  let ?a = "\<lambda>i::int. if i = 2 then Status_error else Ok_response 100 (JObj [])"
  have pr: "process_results (map (\<lambda>i. make_request (?a i)) [1..3]) ([], 0, [])
            = ([100, 100], 1, [JObj [], JObj []])"
    by (simp add: upto.simps make_request_def)
  have mw: "0 < (5::int)" by simp
  have rd: "\<forall>i \<in> {1..3}. outcome_is_readable (?a i)"
    by (simp add: outcome_is_readable_def body_is_readable_def dict_items_def)
  obtain r where r: "benchmark_service_threaded ?a 2 ''u'' ''t'' 3 5 = Some (Inr r)"
    using bst_returns[OF mw rd] by blast
  obtain r0 where r0: "benchmark_service_threaded ?a 0 ''u'' ''t'' 3 5 = Some (Inr r0)"
    using bst_returns[OF mw rd] by blast
  from throughput_is_successes_per_second[OF r] bst_fields(1)[OF r pr]
  have "throughput_rps r = 1" by simp
  moreover from throughput_is_successes_per_second[OF r0]
  have "throughput_rps r0 = 0" by simp
  ultimately show ?thesis using r r0 by blast
qed

subsection \<open>Percentiles\<close>

lemma sorted_ramp: "sort (map real_of_int [a..b]) = map real_of_int [a..b]"
  by (rule sorted_sort_id) (simp add: sorted_map sorted_wrt_mono_rel[OF _ sorted_wrt_upto])

lemma Max_ramp: "a \<le> b \<Longrightarrow> Max (set (map real_of_int [a..b])) = of_int b"
  by (auto intro!: Max_eqI)

text \<open>
  Claim C2, amended. For a non-empty list of \<open>N\<close> latencies, p95 is the maximum when
  \<open>N \<le> 20\<close> and p99 is the maximum when \<open>N \<le> 100\<close>. Above the threshold the value is
  not the element at index \<open>ceil(q * N) - 1\<close> but the cut point of
  \<^verbatim>\<open>statistics.quantiles\<close>: with \<open>s\<close> the sorted list, \<open>j\<close> the quotient of
  \<open>19 * (N + 1)\<close> by \<open>20\<close> (of \<open>99 * (N + 1)\<close> by \<open>100\<close> for p99) kept within \<open>1 .. N - 1\<close>,
  and \<open>d\<close> the remainder left over, it is the weighted mean
  \<open>(s[j-1] * (n - d) + s[j] * d) / n\<close> of two neighbours. For the values 1 to 150 p99
  is 149.49, and for the values 1 to 100 it is 100.
\<close>

theorem percentiles_interpolate_between_neighbours:
  "(latencies \<noteq> [] \<longrightarrow>
     (let s = sort latencies;
          N = int (length latencies);
          j95 = (if 19 * (N + 1) div 20 < 1 then 1
                 else if 19 * (N + 1) div 20 > N - 1 then N - 1 else 19 * (N + 1) div 20);
          d95 = 19 * (N + 1) - j95 * 20;
          j99 = (if 99 * (N + 1) div 100 < 1 then 1
                 else if 99 * (N + 1) div 100 > N - 1 then N - 1 else 99 * (N + 1) div 100);
          d99 = 99 * (N + 1) - j99 * 100
      in p95_latency_ms_of latencies =
           Inr (if N > 20
                then (s ! nat (j95 - 1) * of_int (20 - d95) + s ! nat j95 * of_int d95) / 20
                else Max (set latencies))
         \<and> p99_latency_ms_of latencies =
           Inr (if N > 100
                then (s ! nat (j99 - 1) * of_int (100 - d99) + s ! nat j99 * of_int d99) / 100
                else Max (set latencies))))
   \<and> p99_latency_ms_of (map real_of_int [1..150]) = Inr (14949 / 100)
   \<and> p99_latency_ms_of (map real_of_int [1..100]) = Inr 100"
proof (intro conjI impI)
  assume ne: "latencies \<noteq> []"
  have p95: "p95_latency_ms_of latencies =
      Inr (if length latencies > 20 then quantile_cut (sort latencies) 20 19
           else Max (set latencies))"
    using ne quantiles_index[of latencies 20 18]
    by (simp add: p95_latency_ms_of_def py_max_Max)
  have p99: "p99_latency_ms_of latencies =
      Inr (if length latencies > 100 then quantile_cut (sort latencies) 100 99
           else Max (set latencies))"
    using ne quantiles_index[of latencies 100 98]
    by (simp add: p99_latency_ms_of_def py_max_Max)
  show "let s = sort latencies;
          N = int (length latencies);
          j95 = (if 19 * (N + 1) div 20 < 1 then 1
                 else if 19 * (N + 1) div 20 > N - 1 then N - 1 else 19 * (N + 1) div 20);
          d95 = 19 * (N + 1) - j95 * 20;
          j99 = (if 99 * (N + 1) div 100 < 1 then 1
                 else if 99 * (N + 1) div 100 > N - 1 then N - 1 else 99 * (N + 1) div 100);
          d99 = 99 * (N + 1) - j99 * 100
      in p95_latency_ms_of latencies =
           Inr (if N > 20
                then (s ! nat (j95 - 1) * of_int (20 - d95) + s ! nat j95 * of_int d95) / 20
                else Max (set latencies))
         \<and> p99_latency_ms_of latencies =
           Inr (if N > 100
                then (s ! nat (j99 - 1) * of_int (100 - d99) + s ! nat j99 * of_int d99) / 100
                else Max (set latencies))"
    unfolding p95 p99 by (simp add: quantile_cut_def Let_def)
next
  show "p99_latency_ms_of (map real_of_int [1..150]) = Inr (14949 / 100)"
    using quantiles_index[of "map real_of_int [1..150]" 100 98]
    by (simp add: p99_latency_ms_of_def sorted_ramp quantile_cut_def Let_def)
next
  show "p99_latency_ms_of (map real_of_int [1..100]) = Inr 100"
    by (simp add: p99_latency_ms_of_def py_max_Max Max_ramp del: set_map)
qed

theorem percentiles_interpolate_between_neighbours_witness:
  "map real_of_int [1..21] \<noteq> []
   \<and> p95_latency_ms_of (map real_of_int [1..21]) = Inr (209 / 10)
   \<and> p99_latency_ms_of (map real_of_int [1..21]) = Inr 21"
proof -
  have ne: "map real_of_int [1..21] \<noteq> []" by (simp add: upto.simps)
  from percentiles_interpolate_between_neighbours[of "map real_of_int [1..21]"] ne
  show ?thesis
    by (simp add: Let_def sorted_ramp Max_ramp del: set_map)
qed

text \<open>The claim as written gives 149 for the values 1 to 150; the program does not.\<close>

theorem p99_of_150_values_is_not_149:
  "p99_latency_ms_of (map real_of_int [1..150]) \<noteq> Inr 149"
  using quantiles_index[of "map real_of_int [1..150]" 100 98]
  by (simp add: p99_latency_ms_of_def sorted_ramp quantile_cut_def Let_def)

subsection \<open>The resource monitor\<close>

lemma inspect_Some_matches:
  "inspect names p = Inr (Some v) \<Longrightarrow> name_matches names p"
  by (auto simp: inspect_def name_matches_def Let_def split: proc_entry.splits option.splits if_splits)

lemma scan_no_match:
  "scan_processes names ps t = Inr t' \<Longrightarrow> \<not> list_ex (name_matches names) ps \<Longrightarrow> t' = t"
proof (induction ps arbitrary: t)
  case Nil
  then show ?case by simp
next
  case (Cons p ps)
  from Cons.prems(2) have np: "\<not> name_matches names p" and nps: "\<not> list_ex (name_matches names) ps"
    by simp_all
  from np have "\<And>v. inspect names p \<noteq> Inr (Some v)" using inspect_Some_matches by blast
  with Cons.prems(1) have "scan_processes names ps t = Inr t'"
    by (auto split: sum.splits option.splits if_splits)
  with Cons.IH nps show ?case by blast
qed

lemma monitor_tick_cases:
  "fst (monitor_tick names interval metrics tbl) = metrics
   \<or> (\<exists>t. scan_processes names (yielded tbl) zero_totals = Inr t \<and> 0 < found_processes t
          \<and> fst (monitor_tick names interval metrics tbl)
              = metrics @ [\<lparr>cpu_percent = total_cpu t, memory_mb = total_memory t,
                             threads = total_threads t\<rparr>])"
  by (auto simp: monitor_tick_def Let_def split: sum.splits option.splits)

text \<open>
  Claim C8. A tick in which no enumerated process has a name containing one of the
  configured names leaves the list of samples as it was; whenever a tick changes the
  list, some process matched and exactly one sample was appended.
\<close>

theorem tick_without_match_appends_nothing:
  "(\<not> list_ex (name_matches names) (yielded tbl)
      \<longrightarrow> fst (monitor_tick names interval metrics tbl) = metrics)
   \<and> (fst (monitor_tick names interval metrics tbl) \<noteq> metrics
      \<longrightarrow> list_ex (name_matches names) (yielded tbl)
          \<and> (\<exists>sample. fst (monitor_tick names interval metrics tbl) = metrics @ [sample]))"
proof -
  have a: "fst (monitor_tick names interval metrics tbl) = metrics"
    if nm: "\<not> list_ex (name_matches names) (yielded tbl)"
  proof (rule ccontr)
    assume "fst (monitor_tick names interval metrics tbl) \<noteq> metrics"
    with monitor_tick_cases[of names interval metrics tbl]
    obtain t where t: "scan_processes names (yielded tbl) zero_totals = Inr t"
      and f: "0 < found_processes t" by blast
    from scan_no_match[OF t nm] f show False by (simp add: zero_totals_def)
  qed
  have b: "\<exists>sample. fst (monitor_tick names interval metrics tbl) = metrics @ [sample]"
    if "fst (monitor_tick names interval metrics tbl) \<noteq> metrics"
    using that monitor_tick_cases[of names interval metrics tbl] by blast
  from a b show ?thesis by blast
qed

lemma tick_error_independent:
  "snd (monitor_tick names interval m tbl) = snd (monitor_tick names interval m' tbl)"
  by (auto simp: monitor_tick_def Let_def split: sum.splits option.splits)

lemma loop_stops_here:
  assumes "snd (monitor_tick names interval m0 (table t)) = Some e"
  shows "monitor_loop names interval metrics (t # rest) = monitor_loop names interval metrics [t]"
proof -
  from assms have "snd (monitor_tick names interval metrics (table t)) = Some e"
    using tick_error_independent by metis
  then show ?thesis
    by (cases "monitor_tick names interval metrics (table t)") auto
qed

lemma loop_ignores_ticks_after_failure:
  "snd (monitor_tick names interval m0 (table t)) = Some e \<Longrightarrow>
   monitor_loop names interval metrics (pre @ t # rest)
     = monitor_loop names interval metrics (pre @ [t])"
proof (induction pre arbitrary: metrics)
  case Nil
  from loop_stops_here[OF Nil] show ?case by (simp only: append_Nil)
next
  case (Cons p pre)
  note IH = Cons.IH[OF Cons.prems]
  show ?case
  proof (cases "monitor_tick names interval metrics (table p)")
    case (Pair m' err)
    then show ?thesis by (cases err) (simp_all add: IH)
  qed
qed


lemma tick_quiet: "monitor_tick [''python''] 1 ms quiet_table = (ms, None)"
  by (simp add: monitor_tick_def quiet_table_def shell_proc_def inspect_def zero_totals_def)

lemma tick_busy:
  "monitor_tick [''python''] 1 ms busy_table
   = (ms @ [\<lparr>cpu_percent = 10, memory_mb = 4, threads = 8\<rparr>], None)"
  by (simp add: monitor_tick_def busy_table_def shell_proc_def python_proc_def inspect_def
      zero_totals_def)

lemma tick_broken: "monitor_tick [''python''] 1 ms broken_table = (ms, Some OSError)"
  by (simp add: monitor_tick_def broken_table_def python_proc_def inspect_def zero_totals_def)

theorem tick_without_match_appends_nothing_witness:
  "\<not> list_ex (name_matches [''python'']) (yielded quiet_table)
   \<and> fst (monitor_tick [''python''] 1 [] quiet_table) = []
   \<and> fst (monitor_tick [''python''] 1 [] busy_table) \<noteq> []
   \<and> list_ex (name_matches [''python'']) (yielded busy_table)"
proof -
  have q: "\<not> list_ex (name_matches [''python'']) (yielded quiet_table)"
    by (simp add: quiet_table_def shell_proc_def name_matches_def)
  have b: "fst (monitor_tick [''python''] 1 [] busy_table) \<noteq> []"
    by (simp add: tick_busy)
  from tick_without_match_appends_nothing[of "[''python'']" quiet_table 1 "[]"] tick_without_match_appends_nothing[of "[''python'']" busy_table 1 "[]"] q b
  show ?thesis by blast
qed

text \<open>
  Claim C10. When a tick ends with an exception reaching the outer handler (any
  exception but a per-process \<^verbatim>\<open>NoSuchProcess\<close> or \<^verbatim>\<open>AccessDenied\<close>; a failing
  enumeration of the process table is one), the loop ends there: the samples are those
  left by that tick, whatever ticks would follow and although the flag is still set.
\<close>

theorem failed_tick_ends_sampling:
  "(snd (monitor_tick names interval m0 (table t)) = Some e
      \<longrightarrow> monitor_loop names interval metrics (pre @ t # rest)
          = monitor_loop names interval metrics (pre @ [t]))
   \<and> (monitoring t \<and> snd (monitor_tick names interval metrics (table t)) = Some e
      \<longrightarrow> monitor_loop names interval metrics (t # rest)
          = fst (monitor_tick names interval metrics (table t)))
   \<and> (iter_error tbl = Some e
      \<longrightarrow> snd (monitor_tick names interval metrics tbl) \<noteq> None)"
proof (intro conjI impI)
  assume "snd (monitor_tick names interval m0 (table t)) = Some e"
  then show "monitor_loop names interval metrics (pre @ t # rest)
             = monitor_loop names interval metrics (pre @ [t])"
    by (rule loop_ignores_ticks_after_failure)
next
  assume "monitoring t \<and> snd (monitor_tick names interval metrics (table t)) = Some e"
  then show "monitor_loop names interval metrics (t # rest)
             = fst (monitor_tick names interval metrics (table t))"
    by (cases "monitor_tick names interval metrics (table t)") auto
next
  assume "iter_error tbl = Some e"
  then show "snd (monitor_tick names interval metrics tbl) \<noteq> None"
    by (auto simp: monitor_tick_def split: sum.splits)
qed

theorem failed_tick_ends_sampling_witness:
  "snd (monitor_tick [''python''] 1 [] (table \<lparr>monitoring = True, table = broken_table\<rparr>))
     = Some OSError
   \<and> monitor_loop [''python''] 1 []
        (\<lparr>monitoring = True, table = busy_table\<rparr>
         # \<lparr>monitoring = True, table = broken_table\<rparr>
         # [\<lparr>monitoring = True, table = busy_table\<rparr>,
            \<lparr>monitoring = True, table = busy_table\<rparr>])
       = [\<lparr>cpu_percent = 10, memory_mb = 4, threads = 8\<rparr>]
   \<and> length (monitor_loop [''python''] 1 []
        (\<lparr>monitoring = True, table = busy_table\<rparr>
         # [\<lparr>monitoring = True, table = busy_table\<rparr>,
            \<lparr>monitoring = True, table = busy_table\<rparr>])) = 3
   \<and> monitor_loop [''python''] 1 []
        (\<lparr>monitoring = True, table = broken_table\<rparr>
         # [\<lparr>monitoring = True, table = busy_table\<rparr>]) = []
   \<and> iter_error broken_table = Some OSError"
proof -
  let ?broken = "\<lparr>monitoring = True, table = broken_table\<rparr>"
  let ?busy = "\<lparr>monitoring = True, table = busy_table\<rparr>"
  have h: "snd (monitor_tick [''python''] 1 [] (table ?broken)) = Some OSError"
    by (simp add: tick_broken)
  have i: "iter_error broken_table = Some OSError"
    by (simp add: broken_table_def)
  note t = failed_tick_ends_sampling[of "[''python'']" 1 "[]" ?broken OSError "[]" _ _
      broken_table]
  from t[of "[?busy]" "[?busy, ?busy]"] h
  have a: "monitor_loop [''python''] 1 [] (?busy # ?broken # [?busy, ?busy])
           = monitor_loop [''python''] 1 [] [?busy, ?broken]"
    by simp
  have hb: "monitoring ?broken
            \<and> snd (monitor_tick [''python''] 1 [] (table ?broken)) = Some OSError"
    by (simp add: tick_broken)
  have b: "monitor_loop [''python''] 1 [] (?broken # [?busy])
           = fst (monitor_tick [''python''] 1 [] (table ?broken))"
    by (rule mp[OF conjunct1[OF conjunct2[OF t[of "[]" "[?busy]"]]] hb])
  have c: "snd (monitor_tick [''python''] 1 [] broken_table) \<noteq> None"
    by (rule mp[OF conjunct2[OF conjunct2[OF t[of "[]" "[]"]]] i])
  have b': "monitor_loop [''python''] 1 [] (?broken # [?busy]) = []"
    unfolding b by (simp add: tick_broken)
  have a': "monitor_loop [''python''] 1 [] [?busy, ?broken]
            = [\<lparr>cpu_percent = 10, memory_mb = 4, threads = 8\<rparr>]"
    by (simp add: tick_busy tick_broken)
  have d: "length (monitor_loop [''python''] 1 [] (?busy # [?busy, ?busy])) = 3"
    by (simp add: tick_busy)
  from a a' b' d h i show ?thesis by (simp only: simp_thms)
qed

subsection \<open>The comparison run\<close>

lemma resource_improvements_total:
  assumes "rm \<noteq> []" "pm \<noteq> []"
  shows "\<exists>c. resource_improvements rm pm = Inr c
          \<and> rust_avg_cpu c = sum_list (map cpu_percent rm) / real (length rm)
          \<and> rust_avg_memory c = sum_list (map memory_mb rm) / real (length rm)
          \<and> python_avg_cpu c = sum_list (map cpu_percent pm) / real (length pm)
          \<and> python_avg_memory c = sum_list (map memory_mb pm) / real (length pm)
          \<and> cpu_improvement c = (if rust_avg_cpu c > 0 then python_avg_cpu c / rust_avg_cpu c else 0)
          \<and> memory_improvement c
              = (if rust_avg_memory c > 0 then python_avg_memory c / rust_avg_memory c else 0)"
  using assms
  by (simp add: resource_improvements_def statistics_mean_def py_max_Max bind_exn_def)

lemma resource_rows_total: "\<exists>rows. resource_rows mon rm pm = Inr rows"
proof (cases "mon \<and> rm \<noteq> [] \<and> pm \<noteq> []")
  case True
  then obtain c where "resource_improvements rm pm = Inr c"
    using resource_improvements_total by blast
  with True show ?thesis by (simp add: resource_rows_def bind_exn_def)
next
  case False
  then show ?thesis by (auto simp: resource_rows_def)
qed

lemma measure_service_returns:
  assumes "benchmark_service_threaded (post_research w url) (wall_time w url)
             url topic n mw = Some (Inr r)"
  shows "measure_service w monitor url topic n mw =
           (Some (Inr (r, case monitor of None \<Rightarrow> [] | Some names \<Rightarrow> stop_monitoring w names)),
            (case monitor of None \<Rightarrow> [] | Some names \<Rightarrow> [Monitor_started names])
            @ dispatched_requests url n mw
            @ (case monitor of None \<Rightarrow> [] | Some names \<Rightarrow> [Monitor_stopped names]))"
  using assms by (simp add: measure_service_def Let_def split: option.splits)



lemma no_saved_in_latency_rows: "Results_saved \<notin> set (latency_rows rr pr)"
  by (simp add: latency_rows_def Let_def)

lemma no_saved_in_task_rows: "Results_saved \<notin> set (task_rows rr pr)"
  by (auto simp: task_rows_def Let_def)

lemma no_saved_in_resource_rows:
  "resource_rows mon rm pm = Inr rows \<Longrightarrow> Results_saved \<notin> set rows"
  by (auto simp: resource_rows_def bind_exn_Inr split: if_splits)

lemma no_saved_in_requests: "Console Results_saved \<notin> set (dispatched_requests url n mw)"
  by (auto simp: dispatched_requests_def)

lemma run_when_healthy:
  assumes h1: "health w rust_url = None" and h2: "health w python_url = None"
    and pr: "benchmark_service_threaded (post_research w python_url) (wall_time w python_url)
               python_url topic n mw = Some (Inr pr)"
    and rr: "benchmark_service_threaded (post_research w rust_url) (wall_time w rust_url)
               rust_url topic n mw = Some (Inr rr)"
    and pm: "pm = (if mon then stop_monitoring w [''python'', ''uvicorn'', ''main.py''] else [])"
    and rm: "rm = (if mon then stop_monitoring w [''rust-graphflow'', ''target/release''] else [])"
    and rows: "resource_rows mon rm pm = Inr rrows"
  shows "run_comparison_benchmark w rust_url python_url topic n mw mon =
     ((case open_error w of
         Some e \<Rightarrow> Some (Inl e)
       | None \<Rightarrow> (case dump_error w of Some e \<Rightarrow> Some (Inl e) | None \<Rightarrow> Some (Inr ()))),
      [Console (Banner topic n mw mon), Get_health rust_url, Console (Service_running ''Rust''),
       Get_health python_url, Console (Service_running ''Python'')]
      @ (if mon then [Monitor_started [''python'', ''uvicorn'', ''main.py'']] else [])
      @ dispatched_requests python_url n mw
      @ (if mon then [Monitor_stopped [''python'', ''uvicorn'', ''main.py'']] else [])
      @ [Console (Benchmark_completed ''Python'' (successful_requests pr) (total_requests pr))]
      @ (if mon then [Monitor_started [''rust-graphflow'', ''target/release'']] else [])
      @ dispatched_requests rust_url n mw
      @ (if mon then [Monitor_stopped [''rust-graphflow'', ''target/release'']] else [])
      @ [Console (Benchmark_completed ''Rust'' (successful_requests rr) (total_requests rr))]
      @ map Console (latency_rows rr pr) @ map Console rrows @ map Console (task_rows rr pr)
      @ (case open_error w of
           Some e \<Rightarrow> []
         | None \<Rightarrow>
             (case dump_error w of
                Some e \<Rightarrow> [File_opened ''benchmark_results.json'']
              | None \<Rightarrow> [File_opened ''benchmark_results.json'',
                         File_written ''benchmark_results.json''
                           (results_document (now w) topic n mw mon rr pr rm pm),
                         Console Results_saved])))"
proof -
  have rs: "report_and_save w topic n mw mon rr pr rm pm =
     ((case open_error w of
         Some e \<Rightarrow> Some (Inl e)
       | None \<Rightarrow> (case dump_error w of Some e \<Rightarrow> Some (Inl e) | None \<Rightarrow> Some (Inr ()))),
      map Console (latency_rows rr pr) @ map Console rrows @ map Console (task_rows rr pr)
      @ (case open_error w of
           Some e \<Rightarrow> []
         | None \<Rightarrow>
             (case dump_error w of
                Some e \<Rightarrow> [File_opened ''benchmark_results.json'']
              | None \<Rightarrow> [File_opened ''benchmark_results.json'',
                         File_written ''benchmark_results.json''
                           (results_document (now w) topic n mw mon rr pr rm pm),
                         Console Results_saved])))"
    by (simp add: report_and_save_def rows Let_def split: option.splits)
  have rb: "run_benchmarks w rust_url python_url topic n mw mon =
     ((case open_error w of
         Some e \<Rightarrow> Some (Inl e)
       | None \<Rightarrow> (case dump_error w of Some e \<Rightarrow> Some (Inl e) | None \<Rightarrow> Some (Inr ()))),
      (if mon then [Monitor_started [''python'', ''uvicorn'', ''main.py'']] else [])
      @ dispatched_requests python_url n mw
      @ (if mon then [Monitor_stopped [''python'', ''uvicorn'', ''main.py'']] else [])
      @ [Console (Benchmark_completed ''Python'' (successful_requests pr) (total_requests pr))]
      @ (if mon then [Monitor_started [''rust-graphflow'', ''target/release'']] else [])
      @ dispatched_requests rust_url n mw
      @ (if mon then [Monitor_stopped [''rust-graphflow'', ''target/release'']] else [])
      @ [Console (Benchmark_completed ''Rust'' (successful_requests rr) (total_requests rr))]
      @ map Console (latency_rows rr pr) @ map Console rrows @ map Console (task_rows rr pr)
      @ (case open_error w of
           Some e \<Rightarrow> []
         | None \<Rightarrow>
             (case dump_error w of
                Some e \<Rightarrow> [File_opened ''benchmark_results.json'']
              | None \<Rightarrow> [File_opened ''benchmark_results.json'',
                         File_written ''benchmark_results.json''
                           (results_document (now w) topic n mw mon rr pr rm pm),
                         Console Results_saved])))"
    using rs unfolding run_benchmarks_def Let_def pm rm
    by (cases mon)
       (simp_all add: measure_service_returns[OF pr] measure_service_returns[OF rr])
  show ?thesis
    unfolding run_comparison_benchmark_def Let_def
    by (simp add: h1 h2 rb)
qed

lemma written_documents_append:
  "written_documents (xs @ ys) = written_documents xs @ written_documents ys"
  by (induction xs rule: written_documents.induct) simp_all

lemma written_documents_none:
  "list_all (\<lambda>ev. \<not> is_file_write ev) tr \<Longrightarrow> written_documents tr = []"
  by (induction tr rule: written_documents.induct) simp_all

lemma written_documents_opened: "written_documents (tr @ [File_opened path]) = written_documents tr"
  by (simp add: written_documents_append)

lemma no_write_in_requests:
  "list_all (\<lambda>ev. \<not> is_file_write ev) (dispatched_requests url n mw)"
  by (auto simp: dispatched_requests_def list_all_iff)

lemma no_write_in_console: "list_all (\<lambda>ev. \<not> is_file_write ev) (map Console ls)"
  by (simp add: list_all_iff)


lemma run_trace_when_batches_return:
  assumes h1: "health w rust_url = None" and h2: "health w python_url = None"
    and rr: "benchmark_service_threaded (post_research w rust_url) (wall_time w rust_url)
               rust_url topic n mw = Some (Inr rr)"
    and pr: "benchmark_service_threaded (post_research w python_url) (wall_time w python_url)
               python_url topic n mw = Some (Inr pr)"
  shows "\<exists>tr.
           list_all (\<lambda>ev. \<not> is_file_write ev) tr
         \<and> Console Results_saved \<notin> set tr
         \<and> set (map Console (latency_rows rr pr)) \<subseteq> set tr
         \<and> (\<forall>x y. run_comparison_benchmark (w\<lparr>open_error := x, dump_error := y\<rparr>)
                   rust_url python_url topic n mw mon =
                 (case x of
                    Some e \<Rightarrow> (Some (Inl e), tr)
                  | None \<Rightarrow>
                      (case y of
                         Some e \<Rightarrow> (Some (Inl e), tr @ [File_opened ''benchmark_results.json''])
                       | None \<Rightarrow>
                           (Some (Inr ()),
                            tr @ [File_opened ''benchmark_results.json'',
                                  File_written ''benchmark_results.json''
                                    (results_document (now w) topic n mw mon rr pr
                                       (if mon
                                        then stop_monitoring w [''rust-graphflow'', ''target/release'']
                                        else [])
                                       (if mon
                                        then stop_monitoring w [''python'', ''uvicorn'', ''main.py'']
                                        else [])),
                                  Console Results_saved]))))"
proof -
  let ?rm = "if mon then stop_monitoring w [''rust-graphflow'', ''target/release''] else []"
  let ?pm = "if mon then stop_monitoring w [''python'', ''uvicorn'', ''main.py''] else []"
  obtain rrows where rows: "resource_rows mon ?rm ?pm = Inr rrows"
    using resource_rows_total by blast
  let ?tr = "[Console (Banner topic n mw mon), Get_health rust_url,
       Console (Service_running ''Rust''),
       Get_health python_url, Console (Service_running ''Python'')]
      @ (if mon then [Monitor_started [''python'', ''uvicorn'', ''main.py'']] else [])
      @ dispatched_requests python_url n mw
      @ (if mon then [Monitor_stopped [''python'', ''uvicorn'', ''main.py'']] else [])
      @ [Console (Benchmark_completed ''Python'' (successful_requests pr) (total_requests pr))]
      @ (if mon then [Monitor_started [''rust-graphflow'', ''target/release'']] else [])
      @ dispatched_requests rust_url n mw
      @ (if mon then [Monitor_stopped [''rust-graphflow'', ''target/release'']] else [])
      @ [Console (Benchmark_completed ''Rust'' (successful_requests rr) (total_requests rr))]
      @ map Console (latency_rows rr pr) @ map Console rrows @ map Console (task_rows rr pr)"
  have nw: "list_all (\<lambda>ev. \<not> is_file_write ev) ?tr"
    using no_write_in_requests[of python_url n mw] no_write_in_requests[of rust_url n mw]
      no_write_in_console[of "latency_rows rr pr"] no_write_in_console[of rrows]
      no_write_in_console[of "task_rows rr pr"]
    by simp
  have ns: "Console Results_saved \<notin> set ?tr"
    using no_saved_in_requests[of python_url n mw] no_saved_in_requests[of rust_url n mw]
      no_saved_in_latency_rows[of rr pr] no_saved_in_task_rows[of rr pr]
      no_saved_in_resource_rows[OF rows]
    by auto
  have sub: "set (map Console (latency_rows rr pr)) \<subseteq> set ?tr"
    by auto
  have run: "run_comparison_benchmark (w\<lparr>open_error := x, dump_error := y\<rparr>)
                   rust_url python_url topic n mw mon =
                 (case x of
                    Some e \<Rightarrow> (Some (Inl e), ?tr)
                  | None \<Rightarrow>
                      (case y of
                         Some e \<Rightarrow> (Some (Inl e), ?tr @ [File_opened ''benchmark_results.json''])
                       | None \<Rightarrow>
                           (Some (Inr ()),
                            ?tr @ [File_opened ''benchmark_results.json'',
                                  File_written ''benchmark_results.json''
                                    (results_document (now w) topic n mw mon rr pr ?rm ?pm),
                                  Console Results_saved])))" for x y
  proof -
    let ?w = "w\<lparr>open_error := x, dump_error := y\<rparr>"
    have a: "health ?w rust_url = None" and b: "health ?w python_url = None"
      by (simp_all add: h1 h2)
    have pr': "benchmark_service_threaded (post_research ?w python_url)
        (wall_time ?w python_url) python_url topic n mw = Some (Inr pr)"
      using pr by simp
    have rr': "benchmark_service_threaded (post_research ?w rust_url)
        (wall_time ?w rust_url) rust_url topic n mw = Some (Inr rr)"
      using rr by simp
    have pm': "?pm = (if mon then stop_monitoring ?w [''python'', ''uvicorn'', ''main.py'']
                      else [])"
      by (simp add: stop_monitoring_def)
    have rm': "?rm = (if mon then stop_monitoring ?w [''rust-graphflow'', ''target/release'']
                      else [])"
      by (simp add: stop_monitoring_def)
    from run_when_healthy[OF a b pr' rr' pm' rm' rows]
    show ?thesis by (cases x; cases y) simp_all
  qed
  from nw ns sub run show ?thesis by blast
qed

lemma healthy_run_trace:
  assumes h1: "health w rust_url = None" and h2: "health w python_url = None"
    and mw: "0 < mw"
    and rd: "\<forall>i \<in> {1..n}. outcome_is_readable (post_research w rust_url i)
                        \<and> outcome_is_readable (post_research w python_url i)"
  shows "\<exists>rr pr tr.
           benchmark_service_threaded (post_research w rust_url) (wall_time w rust_url)
             rust_url topic n mw = Some (Inr rr)
         \<and> benchmark_service_threaded (post_research w python_url) (wall_time w python_url)
             python_url topic n mw = Some (Inr pr)
         \<and> list_all (\<lambda>ev. \<not> is_file_write ev) tr
         \<and> Console Results_saved \<notin> set tr
         \<and> set (map Console (latency_rows rr pr)) \<subseteq> set tr
         \<and> (\<forall>x y. run_comparison_benchmark (w\<lparr>open_error := x, dump_error := y\<rparr>)
                   rust_url python_url topic n mw mon =
                 (case x of
                    Some e \<Rightarrow> (Some (Inl e), tr)
                  | None \<Rightarrow>
                      (case y of
                         Some e \<Rightarrow> (Some (Inl e), tr @ [File_opened ''benchmark_results.json''])
                       | None \<Rightarrow>
                           (Some (Inr ()),
                            tr @ [File_opened ''benchmark_results.json'',
                                  File_written ''benchmark_results.json''
                                    (results_document (now w) topic n mw mon rr pr
                                       (if mon
                                        then stop_monitoring w [''rust-graphflow'', ''target/release'']
                                        else [])
                                       (if mon
                                        then stop_monitoring w [''python'', ''uvicorn'', ''main.py'']
                                        else [])),
                                  Console Results_saved]))))"
proof -
  from rd have rdr: "\<forall>i \<in> {1..n}. outcome_is_readable (post_research w rust_url i)"
    and rdp: "\<forall>i \<in> {1..n}. outcome_is_readable (post_research w python_url i)"
    by blast+
  obtain rr where rr: "benchmark_service_threaded (post_research w rust_url)
      (wall_time w rust_url) rust_url topic n mw = Some (Inr rr)"
    using bst_returns[OF mw rdr] by blast
  obtain pr where pr: "benchmark_service_threaded (post_research w python_url)
      (wall_time w python_url) python_url topic n mw = Some (Inr pr)"
    using bst_returns[OF mw rdp] by blast
  from run_trace_when_batches_return[OF h1 h2 rr pr, of mon] rr pr
  show ?thesis by blast
qed

subsection \<open>Preflight\<close>

text \<open>
  Claim C4. When the health probe of either service fails, the run returns at once: its
  trace holds no request to either service, no start of a monitor and no file write.
\<close>

theorem preflight_failure_aborts_before_dispatch:
  "health w rust_url \<noteq> None \<or> health w python_url \<noteq> None \<Longrightarrow>
   fst (run_comparison_benchmark w rust_url python_url topic n mw mon) = Some (Inr ())
   \<and> list_all (\<lambda>ev. \<not> is_dispatch ev \<and> \<not> is_monitor_start ev \<and> \<not> is_file_write ev)
        (snd (run_comparison_benchmark w rust_url python_url topic n mw mon))"
  by (auto simp: run_comparison_benchmark_def Let_def split: option.splits)

theorem preflight_failure_aborts_before_dispatch_witness:
  "health python_down_world ''http://localhost:3001'' \<noteq> None
   \<and> fst (run_comparison_benchmark python_down_world
            ''http://localhost:3000'' ''http://localhost:3001'' ''ai'' 10 5 True) = Some (Inr ())
   \<and> list_all (\<lambda>ev. \<not> is_dispatch ev \<and> \<not> is_monitor_start ev \<and> \<not> is_file_write ev)
        (snd (run_comparison_benchmark python_down_world
                ''http://localhost:3000'' ''http://localhost:3001'' ''ai'' 10 5 True))"
proof -
  have h: "health python_down_world ''http://localhost:3001'' \<noteq> None"
    by (simp add: python_down_world_def example_world_def)
  then have "health python_down_world ''http://localhost:3000'' \<noteq> None
             \<or> health python_down_world ''http://localhost:3001'' \<noteq> None" ..
  from preflight_failure_aborts_before_dispatch[OF this, of "''ai''" 10 5 True] h show ?thesis by blast
qed

lemma example_task_times:
  "collect_task_times [example_body, example_body] []
   = Inr [(''search'', [JNum 40, JNum 40]), (''summarize'', [JNum 60, JNum 60])]"
  by (simp add: example_body_def task_times_of_def dict_items_def)

lemma example_task_stats:
  "task_stats_of [(''search'', [JNum 40, JNum 40]), (''summarize'', [JNum 60, JNum 60])]
   = Inr [(''search'', \<lparr>avg_ms = 40, p50_ms = JNum 40, p95_ms = JNum 40\<rparr>),
          (''summarize'', \<lparr>avg_ms = 60, p50_ms = JNum 60, p95_ms = JNum 60\<rparr>)]"
  by (simp add: task_stat_of_def numbers_of_def value_of_def statistics_mean_def
      median_of_durations_def max_of_durations_def bind_exn_def Let_def)

lemma example_results_dispatched:
  "benchmark_service_threaded (post_research example_world url) (wall_time example_world url)
     url ''ai'' 3 5 = Some (Inr (example_results url))"
proof -
  have pr: "process_results
              (map (\<lambda>i. make_request (post_research example_world url i)) [1..3]) ([], 0, [])
            = ([100, 100], 1, [example_body, example_body])"
    by (simp add: upto.simps make_request_def example_world_def)
  have st: "avg_latency_ms_of [100, 100] = Inr 100" "p50_latency_ms_of [100, 100] = Inr 100"
    "p95_latency_ms_of [100, 100] = Inr 100" "p99_latency_ms_of [100, 100] = Inr 100"
    "max_latency_ms_of [100, 100] = Inr 100" "min_latency_ms_of [100, 100] = Inr 100"
    by (simp_all add: avg_latency_ms_of_def p50_latency_ms_of_def p95_latency_ms_of_def
        p99_latency_ms_of_def max_latency_ms_of_def min_latency_ms_of_def
        statistics_mean_def statistics_median_def py_max_def py_min_def Let_def)
  show ?thesis
    unfolding benchmark_service_threaded_def Let_def pr
    by (simp add: example_task_times example_task_stats st bind_exn_def example_results_def
        example_world_def del: collect_task_times.simps task_stats_of.simps)
qed

lemma example_world_healthy: "health example_world url = None"
  by (simp add: example_world_def)

lemma example_body_readable: "body_is_readable example_body"
  by (simp add: body_is_readable_def example_body_def dict_items_def)

lemma example_world_readable:
  "\<forall>i \<in> {1..n}. outcome_is_readable (post_research example_world url1 i)
                  \<and> outcome_is_readable (post_research example_world url2 i)"
  by (simp add: example_world_def outcome_is_readable_def example_body_readable)

lemma failed_write_leaves_the_run:
  assumes "health w rust_url = None" "health w python_url = None" "0 < mw"
    "\<forall>i \<in> {1..n}. outcome_is_readable (post_research w rust_url i)
                    \<and> outcome_is_readable (post_research w python_url i)"
  shows "fst (run_comparison_benchmark (w\<lparr>open_error := Some e, dump_error := y\<rparr>)
                rust_url python_url topic n mw mon) = Some (Inl e)"
  using healthy_run_trace[OF assms, of topic mon]
  by (elim exE conjE allE[of _ "Some e"] allE[of _ y]) simp

subsection \<open>Failure to write the file\<close>

text \<open>
  Claim C5, amended. When the run reaches the write (both services healthy, the batches
  returned) and \<^verbatim>\<open>open\<close> or \<^verbatim>\<open>json.dump\<close> fails with exception \<open>e\<close>, the run does not
  complete: \<open>e\<close> leaves \<^verbatim>\<open>run_comparison_benchmark\<close>, which returns nothing, leaves no
  complete document and prints no completion message. A failing \<^verbatim>\<open>open\<close> touches no
  file; a failing \<^verbatim>\<open>json.dump\<close> comes after the \<^verbatim>\<open>open\<close> that has already emptied the
  file. Up to the write the run has done exactly what a run with a working disk does, so
  the comparison table of the two results is already on the console.
\<close>

theorem write_failure_propagates_after_the_table_is_printed:
  "health w rust_url = None \<and> health w python_url = None
     \<and> benchmark_service_threaded (post_research w rust_url) (wall_time w rust_url)
           rust_url topic n mw = Some (Inr rr)
     \<and> benchmark_service_threaded (post_research w python_url) (wall_time w python_url)
           python_url topic n mw = Some (Inr pr)
     \<and> (open_error w = Some e \<or> (open_error w = None \<and> dump_error w = Some e)) \<Longrightarrow>
   \<exists>tr doc.
     run_comparison_benchmark w rust_url python_url topic n mw mon
       = (Some (Inl e),
          tr @ (if open_error w = None then [File_opened ''benchmark_results.json''] else []))
     \<and> list_all (\<lambda>ev. \<not> is_file_write ev) tr
     \<and> Console Results_saved \<notin> set tr
     \<and> written_documents (snd (run_comparison_benchmark w rust_url python_url topic n mw mon))
         = []
     \<and> run_comparison_benchmark (w\<lparr>open_error := None, dump_error := None\<rparr>)
           rust_url python_url topic n mw mon
         = (Some (Inr ()), tr @ [File_opened ''benchmark_results.json'',
                                File_written ''benchmark_results.json'' doc,
                                Console Results_saved])
     \<and> set (map Console (latency_rows rr pr)) \<subseteq> set tr"
proof -
  assume a: "health w rust_url = None \<and> health w python_url = None
     \<and> benchmark_service_threaded (post_research w rust_url) (wall_time w rust_url)
           rust_url topic n mw = Some (Inr rr)
     \<and> benchmark_service_threaded (post_research w python_url) (wall_time w python_url)
           python_url topic n mw = Some (Inr pr)
     \<and> (open_error w = Some e \<or> (open_error w = None \<and> dump_error w = Some e))"
  then have h1: "health w rust_url = None" and h2: "health w python_url = None"
    and rr: "benchmark_service_threaded (post_research w rust_url) (wall_time w rust_url)
           rust_url topic n mw = Some (Inr rr)"
    and pr: "benchmark_service_threaded (post_research w python_url) (wall_time w python_url)
           python_url topic n mw = Some (Inr pr)"
    and we: "open_error w = Some e \<or> (open_error w = None \<and> dump_error w = Some e)"
    by blast+
  let ?doc = "results_document (now w) topic n mw mon rr pr
      (if mon then stop_monitoring w [''rust-graphflow'', ''target/release''] else [])
      (if mon then stop_monitoring w [''python'', ''uvicorn'', ''main.py''] else [])"
  from run_trace_when_batches_return[OF h1 h2 rr pr, of mon]
  obtain tr where nw: "list_all (\<lambda>ev. \<not> is_file_write ev) tr"
    and ns: "Console Results_saved \<notin> set tr"
    and sub: "set (map Console (latency_rows rr pr)) \<subseteq> set tr"
    and run: "\<And>x y. run_comparison_benchmark (w\<lparr>open_error := x, dump_error := y\<rparr>)
                   rust_url python_url topic n mw mon =
                 (case x of
                    Some e \<Rightarrow> (Some (Inl e), tr)
                  | None \<Rightarrow>
                      (case y of
                         Some e \<Rightarrow> (Some (Inl e), tr @ [File_opened ''benchmark_results.json''])
                       | None \<Rightarrow>
                           (Some (Inr ()),
                            tr @ [File_opened ''benchmark_results.json'',
                                  File_written ''benchmark_results.json'' ?doc,
                                  Console Results_saved])))"
    by blast
  have w: "w\<lparr>open_error := open_error w, dump_error := dump_error w\<rparr> = w" by simp
  from run[where x = "open_error w" and y = "dump_error w"] we
  have r1: "run_comparison_benchmark w rust_url python_url topic n mw mon
       = (Some (Inl e),
          tr @ (if open_error w = None then [File_opened ''benchmark_results.json''] else []))"
    unfolding w by auto
  have wd: "written_documents (snd (run_comparison_benchmark w rust_url python_url topic n mw mon))
         = []"
    unfolding r1 using written_documents_none[OF nw]
    by (simp add: written_documents_append)
  from run[where x = None and y = None] have r2:
    "run_comparison_benchmark (w\<lparr>open_error := None, dump_error := None\<rparr>)
           rust_url python_url topic n mw mon
         = (Some (Inr ()), tr @ [File_opened ''benchmark_results.json'',
                                File_written ''benchmark_results.json'' ?doc,
                                Console Results_saved])"
    by simp
  from r1 nw ns wd r2 sub show ?thesis by blast
qed

theorem write_failure_propagates_after_the_table_is_printed_witness:
  "health readonly_disk_world ''http://localhost:3000'' = None
   \<and> health full_disk_world ''http://localhost:3001'' = None
   \<and> benchmark_service_threaded (post_research readonly_disk_world ''http://localhost:3000'')
        (wall_time readonly_disk_world ''http://localhost:3000'') ''http://localhost:3000''
        ''ai'' 3 5 = Some (Inr (example_results ''http://localhost:3000''))
   \<and> benchmark_service_threaded (post_research full_disk_world ''http://localhost:3001'')
        (wall_time full_disk_world ''http://localhost:3001'') ''http://localhost:3001''
        ''ai'' 3 5 = Some (Inr (example_results ''http://localhost:3001''))
   \<and> open_error readonly_disk_world = Some OSError
   \<and> open_error full_disk_world = None \<and> dump_error full_disk_world = Some OSError
   \<and> (\<exists>tr doc.
        run_comparison_benchmark readonly_disk_world
          ''http://localhost:3000'' ''http://localhost:3001'' ''ai'' 3 5 True
          = (Some (Inl OSError), tr)
        \<and> run_comparison_benchmark full_disk_world
          ''http://localhost:3000'' ''http://localhost:3001'' ''ai'' 3 5 True
          = (Some (Inl OSError), tr @ [File_opened ''benchmark_results.json''])
        \<and> list_all (\<lambda>ev. \<not> is_file_write ev) tr
        \<and> Console Results_saved \<notin> set tr
        \<and> run_comparison_benchmark example_world
            ''http://localhost:3000'' ''http://localhost:3001'' ''ai'' 3 5 True
            = (Some (Inr ()), tr @ [File_opened ''benchmark_results.json'',
                                   File_written ''benchmark_results.json'' doc,
                                   Console Results_saved]))"
proof -
  let ?ru = "''http://localhost:3000''" and ?pu = "''http://localhost:3001''"
  have p1: "post_research readonly_disk_world = post_research example_world"
    "wall_time readonly_disk_world = wall_time example_world"
    "post_research full_disk_world = post_research example_world"
    "wall_time full_disk_world = wall_time example_world"
    by (simp_all add: readonly_disk_world_def full_disk_world_def)
  have h1: "health readonly_disk_world ?ru = None
     \<and> health readonly_disk_world ?pu = None
     \<and> benchmark_service_threaded (post_research readonly_disk_world ?ru)
          (wall_time readonly_disk_world ?ru) ?ru ''ai'' 3 5 = Some (Inr (example_results ?ru))
     \<and> benchmark_service_threaded (post_research readonly_disk_world ?pu)
          (wall_time readonly_disk_world ?pu) ?pu ''ai'' 3 5 = Some (Inr (example_results ?pu))
     \<and> (open_error readonly_disk_world = Some OSError
         \<or> (open_error readonly_disk_world = None
             \<and> dump_error readonly_disk_world = Some OSError))"
    unfolding p1 using example_results_dispatched[of ?ru] example_results_dispatched[of ?pu]
    by (simp add: readonly_disk_world_def example_world_healthy)
  have h2: "health full_disk_world ?ru = None
     \<and> health full_disk_world ?pu = None
     \<and> benchmark_service_threaded (post_research full_disk_world ?ru)
          (wall_time full_disk_world ?ru) ?ru ''ai'' 3 5 = Some (Inr (example_results ?ru))
     \<and> benchmark_service_threaded (post_research full_disk_world ?pu)
          (wall_time full_disk_world ?pu) ?pu ''ai'' 3 5 = Some (Inr (example_results ?pu))
     \<and> (open_error full_disk_world = Some OSError
         \<or> (open_error full_disk_world = None
             \<and> dump_error full_disk_world = Some OSError))"
    unfolding p1 using example_results_dispatched[of ?ru] example_results_dispatched[of ?pu]
    by (simp add: full_disk_world_def example_world_healthy) (simp add: example_world_def)
  have w1: "readonly_disk_world\<lparr>open_error := None, dump_error := None\<rparr> = example_world"
    by (simp add: readonly_disk_world_def example_world_def)
  have w2: "full_disk_world\<lparr>open_error := None, dump_error := None\<rparr> = example_world"
    by (simp add: full_disk_world_def example_world_def)
  have o1: "open_error readonly_disk_world = Some OSError"
    by (simp add: readonly_disk_world_def)
  have o2: "open_error full_disk_world = None" "dump_error full_disk_world = Some OSError"
    by (simp_all add: full_disk_world_def example_world_def)
  from write_failure_propagates_after_the_table_is_printed[OF h1, of True]
  obtain tr doc where a1: "run_comparison_benchmark readonly_disk_world
          ''http://localhost:3000'' ''http://localhost:3001'' ''ai'' 3 5 True
          = (Some (Inl OSError), tr)"
    and nw: "list_all (\<lambda>ev. \<not> is_file_write ev) tr"
    and ns: "Console Results_saved \<notin> set tr"
    and ok: "run_comparison_benchmark example_world
            ''http://localhost:3000'' ''http://localhost:3001'' ''ai'' 3 5 True
            = (Some (Inr ()), tr @ [File_opened ''benchmark_results.json'',
                                   File_written ''benchmark_results.json'' doc,
                                   Console Results_saved])"
    unfolding w1 o1 by auto
  from write_failure_propagates_after_the_table_is_printed[OF h2, of True]
  obtain tr' doc' where a2: "run_comparison_benchmark full_disk_world
          ''http://localhost:3000'' ''http://localhost:3001'' ''ai'' 3 5 True
          = (Some (Inl OSError), tr' @ [File_opened ''benchmark_results.json''])"
    and ok': "run_comparison_benchmark example_world
            ''http://localhost:3000'' ''http://localhost:3001'' ''ai'' 3 5 True
            = (Some (Inr ()), tr' @ [File_opened ''benchmark_results.json'',
                                   File_written ''benchmark_results.json'' doc',
                                   Console Results_saved])"
    unfolding w2 o2 by auto
  from ok ok' have "tr' = tr" by simp
  with a1 a2 nw ns ok h1 h2 o1 o2 show ?thesis by auto
qed

text \<open>With a directory that cannot be written the run ends by raising, not with a report.\<close>

theorem write_failure_ends_the_run_with_an_exception:
  "fst (run_comparison_benchmark readonly_disk_world
          ''http://localhost:3000'' ''http://localhost:3001'' ''ai'' 3 5 True)
   = Some (Inl OSError)"
proof -
  have w: "readonly_disk_world
           = example_world\<lparr>open_error := Some OSError, dump_error := None\<rparr>"
    by (simp add: readonly_disk_world_def example_world_def)
  show ?thesis
    unfolding w
    by (rule failed_write_leaves_the_run
          [OF example_world_healthy example_world_healthy _ example_world_readable]) simp
qed

subsection \<open>Comparing a run with itself\<close>

lemma all_failed_results_dispatched:
  "benchmark_service_threaded (\<lambda>i. Request_failed) 3 ''http://localhost:3000'' ''ai'' 2 1
   = Some (Inr all_failed_results)"
  by (simp add: benchmark_service_threaded_def upto.simps make_request_def
      bind_exn_def avg_latency_ms_of_def p50_latency_ms_of_def
      p95_latency_ms_of_def p99_latency_ms_of_def max_latency_ms_of_def min_latency_ms_of_def
      all_failed_results_def)

text \<open>
  Claim C6. Comparing a result with itself gives each latency ratio (average, p50, p95)
  the value 1 when the metric is positive, and 0, by the guard, when the metric is 0;
  with a non-empty list of samples compared with itself, the CPU and memory ratios are
  likewise 1 when the average is positive and 0 when it is 0.
\<close>

theorem self_comparison_ratio_is_one:
  "(0 < avg_latency_ms r \<longrightarrow> avg_improvement (latency_improvements r r) = 1)
   \<and> (avg_latency_ms r = 0 \<longrightarrow> avg_improvement (latency_improvements r r) = 0)
   \<and> (0 < p50_latency_ms r \<longrightarrow> p50_improvement (latency_improvements r r) = 1)
   \<and> (p50_latency_ms r = 0 \<longrightarrow> p50_improvement (latency_improvements r r) = 0)
   \<and> (0 < p95_latency_ms r \<longrightarrow> p95_improvement (latency_improvements r r) = 1)
   \<and> (p95_latency_ms r = 0 \<longrightarrow> p95_improvement (latency_improvements r r) = 0)
   \<and> (ms \<noteq> [] \<longrightarrow>
        (\<exists>c. resource_improvements ms ms = Inr c
           \<and> rust_avg_cpu c = sum_list (map cpu_percent ms) / real (length ms)
           \<and> python_avg_cpu c = rust_avg_cpu c
           \<and> rust_avg_memory c = sum_list (map memory_mb ms) / real (length ms)
           \<and> python_avg_memory c = rust_avg_memory c
           \<and> (0 < rust_avg_cpu c \<longrightarrow> cpu_improvement c = 1)
           \<and> (rust_avg_cpu c = 0 \<longrightarrow> cpu_improvement c = 0)
           \<and> (0 < rust_avg_memory c \<longrightarrow> memory_improvement c = 1)
           \<and> (rust_avg_memory c = 0 \<longrightarrow> memory_improvement c = 0)))"
proof -
  have lat: "(0 < avg_latency_ms r \<longrightarrow> avg_improvement (latency_improvements r r) = 1)
   \<and> (avg_latency_ms r = 0 \<longrightarrow> avg_improvement (latency_improvements r r) = 0)
   \<and> (0 < p50_latency_ms r \<longrightarrow> p50_improvement (latency_improvements r r) = 1)
   \<and> (p50_latency_ms r = 0 \<longrightarrow> p50_improvement (latency_improvements r r) = 0)
   \<and> (0 < p95_latency_ms r \<longrightarrow> p95_improvement (latency_improvements r r) = 1)
   \<and> (p95_latency_ms r = 0 \<longrightarrow> p95_improvement (latency_improvements r r) = 0)"
    by (simp add: latency_improvements_def Let_def)
  have res: "\<exists>c. resource_improvements ms ms = Inr c
           \<and> rust_avg_cpu c = sum_list (map cpu_percent ms) / real (length ms)
           \<and> python_avg_cpu c = rust_avg_cpu c
           \<and> rust_avg_memory c = sum_list (map memory_mb ms) / real (length ms)
           \<and> python_avg_memory c = rust_avg_memory c
           \<and> (0 < rust_avg_cpu c \<longrightarrow> cpu_improvement c = 1)
           \<and> (rust_avg_cpu c = 0 \<longrightarrow> cpu_improvement c = 0)
           \<and> (0 < rust_avg_memory c \<longrightarrow> memory_improvement c = 1)
           \<and> (rust_avg_memory c = 0 \<longrightarrow> memory_improvement c = 0)" if ne: "ms \<noteq> []"
  proof -
    from resource_improvements_total[OF ne ne]
    obtain c where c: "resource_improvements ms ms = Inr c"
      and rc: "rust_avg_cpu c = sum_list (map cpu_percent ms) / real (length ms)"
      and rm: "rust_avg_memory c = sum_list (map memory_mb ms) / real (length ms)"
      and pc: "python_avg_cpu c = sum_list (map cpu_percent ms) / real (length ms)"
      and pm: "python_avg_memory c = sum_list (map memory_mb ms) / real (length ms)"
      and ci: "cpu_improvement c
               = (if rust_avg_cpu c > 0 then python_avg_cpu c / rust_avg_cpu c else 0)"
      and mi: "memory_improvement c
               = (if rust_avg_memory c > 0 then python_avg_memory c / rust_avg_memory c else 0)"
      by blast
    have pc': "python_avg_cpu c = rust_avg_cpu c" using rc pc by simp
    have pm': "python_avg_memory c = rust_avg_memory c" using rm pm by simp
    have "(0 < rust_avg_cpu c \<longrightarrow> cpu_improvement c = 1)
          \<and> (rust_avg_cpu c = 0 \<longrightarrow> cpu_improvement c = 0)"
      unfolding ci pc' by simp
    moreover have "(0 < rust_avg_memory c \<longrightarrow> memory_improvement c = 1)
          \<and> (rust_avg_memory c = 0 \<longrightarrow> memory_improvement c = 0)"
      unfolding mi pm' by simp
    ultimately show ?thesis using c rc rm pc' pm' by blast
  qed
  from lat res show ?thesis by blast
qed

theorem self_comparison_ratio_is_one_witness:
  "0 < avg_latency_ms (example_results ''http://localhost:3000'')
   \<and> avg_improvement (latency_improvements (example_results ''http://localhost:3000'')
                                            (example_results ''http://localhost:3000'')) = 1
   \<and> p50_improvement (latency_improvements (example_results ''http://localhost:3000'')
                                            (example_results ''http://localhost:3000'')) = 1
   \<and> p95_improvement (latency_improvements (example_results ''http://localhost:3000'')
                                            (example_results ''http://localhost:3000'')) = 1
   \<and> avg_latency_ms all_failed_results = 0
   \<and> avg_improvement (latency_improvements all_failed_results all_failed_results) = 0
   \<and> (\<exists>c. resource_improvements
             [\<lparr>cpu_percent = 10, memory_mb = 4, threads = 8\<rparr>,
              \<lparr>cpu_percent = 0, memory_mb = 6, threads = 8\<rparr>]
             [\<lparr>cpu_percent = 10, memory_mb = 4, threads = 8\<rparr>,
              \<lparr>cpu_percent = 0, memory_mb = 6, threads = 8\<rparr>] = Inr c
          \<and> rust_avg_cpu c = 5 \<and> rust_avg_memory c = 5
          \<and> cpu_improvement c = 1 \<and> memory_improvement c = 1)"
proof -
  let ?r = "example_results ''http://localhost:3000''"
  let ?ms = "[\<lparr>cpu_percent = 10, memory_mb = 4, threads = 8\<rparr>,
              \<lparr>cpu_percent = 0, memory_mb = 6, threads = (8::int)\<rparr>]"
  have p: "0 < avg_latency_ms ?r" "0 < p50_latency_ms ?r" "0 < p95_latency_ms ?r"
    by (simp_all add: example_results_def)
  have z: "avg_latency_ms all_failed_results = 0" by (simp add: all_failed_results_def)
  have ne: "?ms \<noteq> []" by simp
  note t1 = self_comparison_ratio_is_one[of ?r ?ms]
  note t2 = self_comparison_ratio_is_one[of all_failed_results ?ms]
  from t1 ne obtain c where "resource_improvements ?ms ?ms = Inr c"
    and "rust_avg_cpu c = sum_list (map cpu_percent ?ms) / real (length ?ms)"
    and "rust_avg_memory c = sum_list (map memory_mb ?ms) / real (length ?ms)"
    and "0 < rust_avg_cpu c \<longrightarrow> cpu_improvement c = 1"
    and "0 < rust_avg_memory c \<longrightarrow> memory_improvement c = 1"
    by blast
  then have "\<exists>c. resource_improvements ?ms ?ms = Inr c
          \<and> rust_avg_cpu c = 5 \<and> rust_avg_memory c = 5
          \<and> cpu_improvement c = 1 \<and> memory_improvement c = 1"
    by auto
  with t1 t2 p z show ?thesis by blast
qed

subsection \<open>The written document\<close>

lemma process_results_latencies:
  "process_results rs (l, e, r) = (l', e', r') \<Longrightarrow>
   l' = l @ concat (map (\<lambda>x. case x of Inl ex \<Rightarrow> [] | Inr None \<Rightarrow> []
                                | Inr (Some (latency, data)) \<Rightarrow> [latency]) rs)"
proof (induction rs arbitrary: l e r)
  case Nil
  then show ?case by simp
next
  case (Cons a rs)
  show ?case
  proof (cases a)
    case (Inl x)
    with Cons.prems have "process_results rs (l, e + 1, r) = (l', e', r')" by simp
    from Cons.IH[OF this] Inl show ?thesis by simp
  next
    case (Inr opt)
    show ?thesis
    proof (cases opt)
      case None
      with Inr Cons.prems have "process_results rs (l, e + 1, r) = (l', e', r')" by simp
      from Cons.IH[OF this] Inr None show ?thesis by simp
    next
      case (Some ld)
      obtain lat d where ld: "ld = (lat, d)" by (cases ld)
      with Some Inr Cons.prems
      have "process_results rs (l @ [lat], e, r @ [d]) = (l', e', r')" by simp
      from Cons.IH[OF this] Inr Some ld show ?thesis by simp
    qed
  qed
qed

lemma make_request_latency:
  "(case make_request outcome of Inl ex \<Rightarrow> [] | Inr None \<Rightarrow> []
    | Inr (Some (latency, data)) \<Rightarrow> [latency])
   = (case outcome of Ok_response latency data \<Rightarrow> [latency] | _ \<Rightarrow> [])"
  by (cases outcome) (simp_all add: make_request_def)

lemma bst_raw_latencies:
  assumes "benchmark_service_threaded attempt T url topic N max_workers = Some (Inr r)"
  shows "raw_latencies r
         = concat (map (\<lambda>i. case attempt i of Ok_response latency data \<Rightarrow> [latency] | _ \<Rightarrow> [])
                     [1..N])"
    and "int (length (raw_latencies r)) = successful_requests r"
proof -
  obtain l e rs where pr:
    "process_results (map (\<lambda>i. make_request (attempt i)) [1..N]) ([], 0, []) = (l, e, rs)"
    by (cases "process_results (map (\<lambda>i. make_request (attempt i)) [1..N]) ([], 0, [])")
  from process_results_latencies[OF pr] bst_fields(3)[OF assms pr]
  show "raw_latencies r
         = concat (map (\<lambda>i. case attempt i of Ok_response latency data \<Rightarrow> [latency] | _ \<Rightarrow> [])
                     [1..N])"
    by (simp add: comp_def make_request_latency)
  from bst_fields(1,3)[OF assms pr]
  show "int (length (raw_latencies r)) = successful_requests r" by simp
qed

lemma written_documents_console: "written_documents (map Console ls) = []"
  by (rule written_documents_none) (rule no_write_in_console)

lemma written_documents_requests: "written_documents (dispatched_requests url n mw) = []"
  by (rule written_documents_none) (rule no_write_in_requests)

lemma measure_service_cases:
  "(\<exists>tr. measure_service w monitor url topic n mw = (None, tr) \<and> written_documents tr = [])
   \<or> (\<exists>e tr. measure_service w monitor url topic n mw = (Some (Inl e), tr)
             \<and> written_documents tr = [])
   \<or> (\<exists>r tr. measure_service w monitor url topic n mw
               = (Some (Inr (r, case monitor of None \<Rightarrow> []
                                 | Some names \<Rightarrow> stop_monitoring w names)), tr)
             \<and> written_documents tr = []
             \<and> benchmark_service_threaded (post_research w url) (wall_time w url)
                  url topic n mw = Some (Inr r))"
  by (auto simp: measure_service_def Let_def written_documents_append
      written_documents_requests split: option.splits sum.splits)

lemma report_and_save_documents:
  "written_documents (snd (report_and_save w topic n mw mon rr pr rm pm)) = [] \<or>
   (fst (report_and_save w topic n mw mon rr pr rm pm) = Some (Inr ())
    \<and> written_documents (snd (report_and_save w topic n mw mon rr pr rm pm))
        = [results_document (now w) topic n mw mon rr pr rm pm])"
  by (auto simp: report_and_save_def Let_def written_documents_append
      written_documents_console split: option.splits sum.splits)


lemma run_benchmarks_documents:
  "written_documents (snd (run_benchmarks w rust_url python_url topic n mw mon)) = [] \<or>
   (\<exists>rr pr.
      benchmark_service_threaded (post_research w rust_url) (wall_time w rust_url)
        rust_url topic n mw = Some (Inr rr)
    \<and> benchmark_service_threaded (post_research w python_url) (wall_time w python_url)
        python_url topic n mw = Some (Inr pr)
    \<and> fst (run_benchmarks w rust_url python_url topic n mw mon) = Some (Inr ())
    \<and> written_documents (snd (run_benchmarks w rust_url python_url topic n mw mon))
        = [results_document (now w) topic n mw mon rr pr
             (if mon then stop_monitoring w [''rust-graphflow'', ''target/release''] else [])
             (if mon then stop_monitoring w [''python'', ''uvicorn'', ''main.py''] else [])])"
proof -
  let ?pmon = "if mon then Some [''python'', ''uvicorn'', ''main.py''] else None"
  let ?rmon = "if mon then Some [''rust-graphflow'', ''target/release''] else None"
  let ?pm = "if mon then stop_monitoring w [''python'', ''uvicorn'', ''main.py''] else []"
  let ?rm = "if mon then stop_monitoring w [''rust-graphflow'', ''target/release''] else []"
  have pm: "(case ?pmon of None \<Rightarrow> [] | Some names \<Rightarrow> stop_monitoring w names) = ?pm"
    by simp
  have rm: "(case ?rmon of None \<Rightarrow> [] | Some names \<Rightarrow> stop_monitoring w names) = ?rm"
    by simp
  from measure_service_cases[of w ?pmon python_url topic n mw]
  consider (hang) ptr where "measure_service w ?pmon python_url topic n mw = (None, ptr)"
      "written_documents ptr = []"
    | (raise) e ptr where "measure_service w ?pmon python_url topic n mw = (Some (Inl e), ptr)"
      "written_documents ptr = []"
    | (ret) pr ptr where "measure_service w ?pmon python_url topic n mw
         = (Some (Inr (pr, ?pm)), ptr)" "written_documents ptr = []"
      "benchmark_service_threaded (post_research w python_url) (wall_time w python_url)
         python_url topic n mw = Some (Inr pr)"
    unfolding pm by blast
  then show ?thesis
  proof cases
    case hang
    then show ?thesis by (simp add: run_benchmarks_def Let_def)
  next
    case raise
    then show ?thesis by (simp add: run_benchmarks_def Let_def)
  next
    case ret
    from measure_service_cases[of w ?rmon rust_url topic n mw]
    consider (hang2) rtr where "measure_service w ?rmon rust_url topic n mw = (None, rtr)"
        "written_documents rtr = []"
      | (raise2) e rtr where "measure_service w ?rmon rust_url topic n mw = (Some (Inl e), rtr)"
        "written_documents rtr = []"
      | (ret2) rr rtr where "measure_service w ?rmon rust_url topic n mw
           = (Some (Inr (rr, ?rm)), rtr)" "written_documents rtr = []"
        "benchmark_service_threaded (post_research w rust_url) (wall_time w rust_url)
           rust_url topic n mw = Some (Inr rr)"
      unfolding rm by blast
    then show ?thesis
    proof cases
      case hang2
      with ret show ?thesis
        by (simp add: run_benchmarks_def Let_def written_documents_append)
    next
      case raise2
      with ret show ?thesis
        by (simp add: run_benchmarks_def Let_def written_documents_append)
    next
      case ret2
      obtain res str where rs: "report_and_save w topic n mw mon rr pr ?rm ?pm = (res, str)"
        by (cases "report_and_save w topic n mw mon rr pr ?rm ?pm")
      from ret ret2 rs
      have run: "run_benchmarks w rust_url python_url topic n mw mon
          = (res, ptr @ [Console (Benchmark_completed ''Python''
                           (successful_requests pr) (total_requests pr))]
                  @ rtr @ [Console (Benchmark_completed ''Rust''
                           (successful_requests rr) (total_requests rr))] @ str)"
        by (simp add: run_benchmarks_def Let_def)
      have docs: "written_documents (snd (run_benchmarks w rust_url python_url topic n mw mon))
          = written_documents str"
        unfolding run using ret(2) ret2(2) by (simp add: written_documents_append)
      from report_and_save_documents[of w topic n mw mon rr pr ?rm ?pm]
      show ?thesis
        unfolding docs using rs run ret(3) ret2(3) by auto
    qed
  qed
qed

lemma run_documents:
  "written_documents (snd (run_comparison_benchmark w rust_url python_url topic n mw mon)) = []
   \<or> (\<exists>rr pr.
      benchmark_service_threaded (post_research w rust_url) (wall_time w rust_url)
        rust_url topic n mw = Some (Inr rr)
    \<and> benchmark_service_threaded (post_research w python_url) (wall_time w python_url)
        python_url topic n mw = Some (Inr pr)
    \<and> fst (run_comparison_benchmark w rust_url python_url topic n mw mon) = Some (Inr ())
    \<and> written_documents (snd (run_comparison_benchmark w rust_url python_url topic n mw mon))
        = [results_document (now w) topic n mw mon rr pr
             (if mon then stop_monitoring w [''rust-graphflow'', ''target/release''] else [])
             (if mon then stop_monitoring w [''python'', ''uvicorn'', ''main.py''] else [])])"
proof (cases "health w rust_url = None \<and> health w python_url = None")
  case False
  then have "written_documents
     (snd (run_comparison_benchmark w rust_url python_url topic n mw mon)) = []"
    by (auto simp: run_comparison_benchmark_def Let_def split: option.splits)
  then show ?thesis ..
next
  case True
  obtain res tr where rb: "run_benchmarks w rust_url python_url topic n mw mon = (res, tr)"
    by (cases "run_benchmarks w rust_url python_url topic n mw mon")
  with True have run: "run_comparison_benchmark w rust_url python_url topic n mw mon
      = (res, [Console (Banner topic n mw mon), Get_health rust_url,
               Console (Service_running ''Rust''), Get_health python_url,
               Console (Service_running ''Python'')] @ tr)"
    by (simp add: run_comparison_benchmark_def Let_def)
  from run_benchmarks_documents[of w rust_url python_url topic n mw mon]
  show ?thesis unfolding run rb by simp
qed

lemma results_json_keys:
  "json_keys (results_json r) =
     [''service_url'', ''total_requests'', ''successful_requests'', ''errors'', ''error_rate'',
      ''total_time_seconds'', ''throughput_rps'', ''avg_latency_ms'', ''p50_latency_ms'',
      ''p95_latency_ms'', ''p99_latency_ms'', ''max_latency_ms'', ''min_latency_ms'',
      ''task_statistics'', ''raw_latencies'']"
  by (simp add: results_json_def json_keys_def)

lemma results_json_raw_latencies:
  "json_get (results_json r) ''raw_latencies'' = Some (JArr (map JNum (raw_latencies r)))"
  by (simp add: results_json_def json_get_def)

lemma metrics_json_samples:
  "list_all (\<lambda>sample. json_keys sample = [''cpu_percent'', ''memory_mb'', ''threads''])
     (json_items (metrics_json ms))"
  by (auto simp: metrics_json_def json_items_def json_keys_def list_all_iff)

lemma metrics_json_length: "length (json_items (metrics_json ms)) = length ms"
  by (simp add: metrics_json_def json_items_def)

lemma results_document_keys:
  "json_keys (results_document ts topic n mw mon rr pr rm pm) =
     [''timestamp'', ''benchmark_config'', ''rust_results'', ''python_results'',
      ''rust_resource_metrics'', ''python_resource_metrics'']"
  by (simp add: results_document_def json_keys_def)

lemma results_document_get:
  "json_get (results_document ts topic n mw mon rr pr rm pm) ''timestamp'' = Some (JNum ts)"
  "json_get (results_document ts topic n mw mon rr pr rm pm) ''benchmark_config'' =
     Some (JObj [(''topic'', JStr topic), (''num_requests'', JNum (of_int n)),
                 (''max_workers'', JNum (of_int mw)), (''monitor_resources'', JBool mon)])"
  "json_get (results_document ts topic n mw mon rr pr rm pm) ''rust_results''
     = Some (results_json rr)"
  "json_get (results_document ts topic n mw mon rr pr rm pm) ''python_results''
     = Some (results_json pr)"
  "json_get (results_document ts topic n mw mon rr pr rm pm) ''rust_resource_metrics''
     = Some (metrics_json rm)"
  "json_get (results_document ts topic n mw mon rr pr rm pm) ''python_resource_metrics''
     = Some (metrics_json pm)"
  by (simp_all add: results_document_def json_get_def)

lemma returning_run_writes_one_document:
  assumes "health w rust_url = None" "health w python_url = None"
    "benchmark_service_threaded (post_research w rust_url) (wall_time w rust_url)
       rust_url topic n mw = Some (Inr rr)"
    "benchmark_service_threaded (post_research w python_url) (wall_time w python_url)
       python_url topic n mw = Some (Inr pr)"
    "open_error w = None" "dump_error w = None"
  shows "fst (run_comparison_benchmark w rust_url python_url topic n mw mon) = Some (Inr ())
         \<and> written_documents (snd (run_comparison_benchmark w rust_url python_url topic n mw mon))
             = [results_document (now w) topic n mw mon rr pr
                  (if mon then stop_monitoring w [''rust-graphflow'', ''target/release''] else [])
                  (if mon then stop_monitoring w [''python'', ''uvicorn'', ''main.py''] else [])]"
proof -
  have w: "w\<lparr>open_error := None, dump_error := None\<rparr> = w" using assms(5,6) by simp
  from run_trace_when_batches_return[OF assms(1-4), of mon]
  show ?thesis
    by (elim exE conjE allE[of _ None])
       (auto simp: w written_documents_append written_documents_none)
qed

text \<open>
  Claim C9, amended. Whenever a run writes a document, it has completed and written
  exactly that one, whose top-level fields are \<^verbatim>\<open>timestamp\<close>, \<^verbatim>\<open>benchmark_config\<close>
  (holding \<^verbatim>\<open>topic\<close>, \<^verbatim>\<open>num_requests\<close>, \<^verbatim>\<open>max_workers\<close>, \<^verbatim>\<open>monitor_resources\<close>), the two
  result blocks \<^verbatim>\<open>rust_results\<close> and \<^verbatim>\<open>python_results\<close>, each with the run statistics
  and the list \<^verbatim>\<open>raw_latencies\<close>, one latency per successful attempt in the order of the
  attempts, and beside them, at top level, the two sample lists
  \<^verbatim>\<open>rust_resource_metrics\<close> and \<^verbatim>\<open>python_resource_metrics\<close>, one entry per sample with
  the fields \<^verbatim>\<open>cpu_percent\<close>, \<^verbatim>\<open>memory_mb\<close> and \<^verbatim>\<open>threads\<close>. A run does write its
  document when both services are healthy, both batches return their results and the
  file can be opened and dumped.
\<close>

theorem written_document_has_the_fields_of_the_source:
  "(\<forall>doc \<in> set (written_documents
                   (snd (run_comparison_benchmark w rust_url python_url topic n mw mon))).
      \<exists>rr pr rm pm.
        fst (run_comparison_benchmark w rust_url python_url topic n mw mon) = Some (Inr ())
        \<and> written_documents (snd (run_comparison_benchmark w rust_url python_url topic n mw mon))
            = [doc]
        \<and> benchmark_service_threaded (post_research w rust_url) (wall_time w rust_url)
              rust_url topic n mw = Some (Inr rr)
        \<and> benchmark_service_threaded (post_research w python_url) (wall_time w python_url)
              python_url topic n mw = Some (Inr pr)
        \<and> rm = (if mon then stop_monitoring w [''rust-graphflow'', ''target/release''] else [])
        \<and> pm = (if mon then stop_monitoring w [''python'', ''uvicorn'', ''main.py''] else [])
        \<and> json_keys doc =
              [''timestamp'', ''benchmark_config'', ''rust_results'', ''python_results'',
               ''rust_resource_metrics'', ''python_resource_metrics'']
        \<and> json_get doc ''timestamp'' = Some (JNum (now w))
        \<and> json_get doc ''benchmark_config'' =
              Some (JObj [(''topic'', JStr topic), (''num_requests'', JNum (of_int n)),
                          (''max_workers'', JNum (of_int mw)),
                          (''monitor_resources'', JBool mon)])
        \<and> json_get doc ''rust_results'' = Some (results_json rr)
        \<and> json_get doc ''python_results'' = Some (results_json pr)
        \<and> json_keys (results_json rr) =
              [''service_url'', ''total_requests'', ''successful_requests'', ''errors'',
               ''error_rate'', ''total_time_seconds'', ''throughput_rps'', ''avg_latency_ms'',
               ''p50_latency_ms'', ''p95_latency_ms'', ''p99_latency_ms'', ''max_latency_ms'',
               ''min_latency_ms'', ''task_statistics'', ''raw_latencies'']
        \<and> json_keys (results_json pr) = json_keys (results_json rr)
        \<and> json_get (results_json rr) ''raw_latencies''
            = Some (JArr (map JNum (raw_latencies rr)))
        \<and> json_get (results_json pr) ''raw_latencies''
            = Some (JArr (map JNum (raw_latencies pr)))
        \<and> raw_latencies rr
            = concat (map (\<lambda>i. case post_research w rust_url i of
                                  Ok_response latency data \<Rightarrow> [latency] | _ \<Rightarrow> []) [1..n])
        \<and> raw_latencies pr
            = concat (map (\<lambda>i. case post_research w python_url i of
                                  Ok_response latency data \<Rightarrow> [latency] | _ \<Rightarrow> []) [1..n])
        \<and> json_get doc ''rust_resource_metrics'' = Some (metrics_json rm)
        \<and> json_get doc ''python_resource_metrics'' = Some (metrics_json pm)
        \<and> length (json_items (metrics_json rm)) = length rm
        \<and> length (json_items (metrics_json pm)) = length pm
        \<and> list_all (\<lambda>sample. json_keys sample = [''cpu_percent'', ''memory_mb'', ''threads''])
              (json_items (metrics_json rm) @ json_items (metrics_json pm)))
   \<and> (health w rust_url = None \<and> health w python_url = None
        \<and> (\<exists>rr. benchmark_service_threaded (post_research w rust_url) (wall_time w rust_url)
                   rust_url topic n mw = Some (Inr rr))
        \<and> (\<exists>pr. benchmark_service_threaded (post_research w python_url)
                   (wall_time w python_url) python_url topic n mw = Some (Inr pr))
        \<and> open_error w = None \<and> dump_error w = None
      \<longrightarrow> (\<exists>doc. written_documents
                    (snd (run_comparison_benchmark w rust_url python_url topic n mw mon))
                  = [doc]))"
proof (intro conjI ballI impI)
  fix doc
  assume d: "doc \<in> set (written_documents
                   (snd (run_comparison_benchmark w rust_url python_url topic n mw mon)))"
  let ?rm = "if mon then stop_monitoring w [''rust-graphflow'', ''target/release''] else []"
  let ?pm = "if mon then stop_monitoring w [''python'', ''uvicorn'', ''main.py''] else []"
  from run_documents[of w rust_url python_url topic n mw mon] d
  obtain rr pr where rr: "benchmark_service_threaded (post_research w rust_url)
        (wall_time w rust_url) rust_url topic n mw = Some (Inr rr)"
    and pr: "benchmark_service_threaded (post_research w python_url)
        (wall_time w python_url) python_url topic n mw = Some (Inr pr)"
    and ok: "fst (run_comparison_benchmark w rust_url python_url topic n mw mon)
             = Some (Inr ())"
    and wd: "written_documents
               (snd (run_comparison_benchmark w rust_url python_url topic n mw mon))
             = [results_document (now w) topic n mw mon rr pr ?rm ?pm]"
    by auto
  let ?doc = "results_document (now w) topic n mw mon rr pr ?rm ?pm"
  from d wd have doc: "doc = ?doc" by simp
  have samples: "list_all (\<lambda>sample. json_keys sample = [''cpu_percent'', ''memory_mb'', ''threads''])
           (json_items (metrics_json ?rm) @ json_items (metrics_json ?pm))"
    using metrics_json_samples[of ?rm] metrics_json_samples[of ?pm] by simp
  show "\<exists>rr pr rm pm.
        fst (run_comparison_benchmark w rust_url python_url topic n mw mon) = Some (Inr ())
        \<and> written_documents (snd (run_comparison_benchmark w rust_url python_url topic n mw mon))
            = [doc]
        \<and> benchmark_service_threaded (post_research w rust_url) (wall_time w rust_url)
              rust_url topic n mw = Some (Inr rr)
        \<and> benchmark_service_threaded (post_research w python_url) (wall_time w python_url)
              python_url topic n mw = Some (Inr pr)
        \<and> rm = (if mon then stop_monitoring w [''rust-graphflow'', ''target/release''] else [])
        \<and> pm = (if mon then stop_monitoring w [''python'', ''uvicorn'', ''main.py''] else [])
        \<and> json_keys doc =
              [''timestamp'', ''benchmark_config'', ''rust_results'', ''python_results'',
               ''rust_resource_metrics'', ''python_resource_metrics'']
        \<and> json_get doc ''timestamp'' = Some (JNum (now w))
        \<and> json_get doc ''benchmark_config'' =
              Some (JObj [(''topic'', JStr topic), (''num_requests'', JNum (of_int n)),
                          (''max_workers'', JNum (of_int mw)),
                          (''monitor_resources'', JBool mon)])
        \<and> json_get doc ''rust_results'' = Some (results_json rr)
        \<and> json_get doc ''python_results'' = Some (results_json pr)
        \<and> json_keys (results_json rr) =
              [''service_url'', ''total_requests'', ''successful_requests'', ''errors'',
               ''error_rate'', ''total_time_seconds'', ''throughput_rps'', ''avg_latency_ms'',
               ''p50_latency_ms'', ''p95_latency_ms'', ''p99_latency_ms'', ''max_latency_ms'',
               ''min_latency_ms'', ''task_statistics'', ''raw_latencies'']
        \<and> json_keys (results_json pr) = json_keys (results_json rr)
        \<and> json_get (results_json rr) ''raw_latencies''
            = Some (JArr (map JNum (raw_latencies rr)))
        \<and> json_get (results_json pr) ''raw_latencies''
            = Some (JArr (map JNum (raw_latencies pr)))
        \<and> raw_latencies rr
            = concat (map (\<lambda>i. case post_research w rust_url i of
                                  Ok_response latency data \<Rightarrow> [latency] | _ \<Rightarrow> []) [1..n])
        \<and> raw_latencies pr
            = concat (map (\<lambda>i. case post_research w python_url i of
                                  Ok_response latency data \<Rightarrow> [latency] | _ \<Rightarrow> []) [1..n])
        \<and> json_get doc ''rust_resource_metrics'' = Some (metrics_json rm)
        \<and> json_get doc ''python_resource_metrics'' = Some (metrics_json pm)
        \<and> length (json_items (metrics_json rm)) = length rm
        \<and> length (json_items (metrics_json pm)) = length pm
        \<and> list_all (\<lambda>sample. json_keys sample = [''cpu_percent'', ''memory_mb'', ''threads''])
              (json_items (metrics_json rm) @ json_items (metrics_json pm))"
    unfolding doc
    apply (rule exI[of _ rr], rule exI[of _ pr])
    apply (rule exI[of _ ?rm], rule exI[of _ ?pm])
    apply (intro conjI)
    apply (rule ok)
    apply (rule wd)
    apply (rule rr)
    apply (rule pr)
    apply (rule refl)
    apply (rule refl)
    apply (rule results_document_keys)
    apply (rule results_document_get(1))
    apply (rule results_document_get(2))
    apply (rule results_document_get(3))
    apply (rule results_document_get(4))
    apply (rule results_json_keys)
    apply (simp only: results_json_keys)
    apply (rule results_json_raw_latencies)
    apply (rule results_json_raw_latencies)
    apply (rule bst_raw_latencies(1)[OF rr])
    apply (rule bst_raw_latencies(1)[OF pr])
    apply (rule results_document_get(5))
    apply (rule results_document_get(6))
    apply (rule metrics_json_length)
    apply (rule metrics_json_length)
    apply (rule samples)
    done
next
  assume "health w rust_url = None \<and> health w python_url = None
        \<and> (\<exists>rr. benchmark_service_threaded (post_research w rust_url) (wall_time w rust_url)
                   rust_url topic n mw = Some (Inr rr))
        \<and> (\<exists>pr. benchmark_service_threaded (post_research w python_url)
                   (wall_time w python_url) python_url topic n mw = Some (Inr pr))
        \<and> open_error w = None \<and> dump_error w = None"
  then obtain rr pr where h: "health w rust_url = None" "health w python_url = None"
    "benchmark_service_threaded (post_research w rust_url) (wall_time w rust_url)
       rust_url topic n mw = Some (Inr rr)"
    "benchmark_service_threaded (post_research w python_url) (wall_time w python_url)
       python_url topic n mw = Some (Inr pr)"
    "open_error w = None" "dump_error w = None"
    by blast
  from returning_run_writes_one_document[OF h, of mon]
  show "\<exists>doc. written_documents
                    (snd (run_comparison_benchmark w rust_url python_url topic n mw mon))
                  = [doc]"
    by blast
qed

theorem written_document_has_the_fields_of_the_source_witness:
  "health example_world ''http://localhost:3000'' = None
   \<and> health example_world ''http://localhost:3001'' = None
   \<and> open_error example_world = None \<and> dump_error example_world = None
   \<and> (\<exists>doc. written_documents (snd (run_comparison_benchmark example_world
                 ''http://localhost:3000'' ''http://localhost:3001'' ''ai'' 3 5 True)) = [doc]
          \<and> json_keys doc =
               [''timestamp'', ''benchmark_config'', ''rust_results'', ''python_results'',
                ''rust_resource_metrics'', ''python_resource_metrics'']
          \<and> json_get doc ''benchmark_config'' =
               Some (JObj [(''topic'', JStr ''ai''), (''num_requests'', JNum 3),
                           (''max_workers'', JNum 5), (''monitor_resources'', JBool True)])
          \<and> json_get doc ''rust_results''
              = Some (results_json (example_results ''http://localhost:3000''))
          \<and> json_get (results_json (example_results ''http://localhost:3000''))
                ''raw_latencies'' = Some (JArr [JNum 100, JNum 100]))"
proof -
  let ?run = "run_comparison_benchmark example_world
                 ''http://localhost:3000'' ''http://localhost:3001'' ''ai'' 3 5 True"
  have h: "health example_world ''http://localhost:3000'' = None
     \<and> health example_world ''http://localhost:3001'' = None
     \<and> (\<exists>rr. benchmark_service_threaded (post_research example_world ''http://localhost:3000'')
                (wall_time example_world ''http://localhost:3000'')
                ''http://localhost:3000'' ''ai'' 3 5 = Some (Inr rr))
     \<and> (\<exists>pr. benchmark_service_threaded (post_research example_world ''http://localhost:3001'')
                (wall_time example_world ''http://localhost:3001'')
                ''http://localhost:3001'' ''ai'' 3 5 = Some (Inr pr))
     \<and> open_error example_world = None \<and> dump_error example_world = None"
    by (simp add: example_world_healthy example_results_dispatched) (simp add: example_world_def)
  note t = written_document_has_the_fields_of_the_source[of example_world "''http://localhost:3000''"
      "''http://localhost:3001''" "''ai''" 3 5 True]
  from t h obtain doc where doc: "written_documents (snd ?run) = [doc]" by blast
  then have "doc \<in> set (written_documents (snd ?run))" by simp
  with t obtain rr where
    k: "json_keys doc =
              [''timestamp'', ''benchmark_config'', ''rust_results'', ''python_results'',
               ''rust_resource_metrics'', ''python_resource_metrics'']"
    and c: "json_get doc ''benchmark_config'' =
              Some (JObj [(''topic'', JStr ''ai''), (''num_requests'', JNum (of_int 3)),
                          (''max_workers'', JNum (of_int 5)),
                          (''monitor_resources'', JBool True)])"
    and r: "json_get doc ''rust_results'' = Some (results_json rr)"
    and b: "benchmark_service_threaded (post_research example_world ''http://localhost:3000'')
              (wall_time example_world ''http://localhost:3000'')
              ''http://localhost:3000'' ''ai'' 3 5 = Some (Inr rr)"
    by blast
  from b have rr: "rr = example_results ''http://localhost:3000''"
    by (simp add: example_results_dispatched)
  have raw: "json_get (results_json (example_results ''http://localhost:3000''))
                ''raw_latencies'' = Some (JArr [JNum 100, JNum 100])"
    by (simp add: results_json_raw_latencies example_results_def)
  from doc k c r rr raw h show ?thesis by simp
qed

text \<open>
  The document of a completed run has no top-level field \<^verbatim>\<open>config\<close>, and its sample
  lists stand beside the result blocks, not inside them.
\<close>

theorem written_document_has_no_config_field:
  "map json_keys (written_documents (snd (run_comparison_benchmark example_world
       ''http://localhost:3000'' ''http://localhost:3001'' ''ai'' 3 5 True)))
   = [[''timestamp'', ''benchmark_config'', ''rust_results'', ''python_results'',
       ''rust_resource_metrics'', ''python_resource_metrics'']]
   \<and> ''config'' \<notin> set (concat (map json_keys (written_documents
         (snd (run_comparison_benchmark example_world
            ''http://localhost:3000'' ''http://localhost:3001'' ''ai'' 3 5 True)))))"
proof -
  have oe: "open_error example_world = None" and de: "dump_error example_world = None"
    by (simp_all add: example_world_def)
  from returning_run_writes_one_document[where w = example_world
      and rust_url = "''http://localhost:3000''" and python_url = "''http://localhost:3001''"
      and topic = "''ai''" and n = 3 and mw = 5 and mon = True,
      OF example_world_healthy example_world_healthy
         example_results_dispatched example_results_dispatched oe de]
  obtain doc where "written_documents (snd (run_comparison_benchmark example_world
       ''http://localhost:3000'' ''http://localhost:3001'' ''ai'' 3 5 True)) = [doc]"
    and "json_keys doc = [''timestamp'', ''benchmark_config'', ''rust_results'',
       ''python_results'', ''rust_resource_metrics'', ''python_resource_metrics'']"
    using results_document_keys by blast
  then show ?thesis by simp
qed

end
